theory Spec2Isabelle
  imports Complex_Main
begin

section \<open>Tensors and the library operations the model uses\<close>

text \<open>
  The network of \<^verbatim>\<open>Resnet_multiscale_transfer.py\<close> computes on floating-point tensors.
  Here a tensor entry is a \<^typ>\<open>real\<close>: rounding and overflow are abstracted away, the
  shapes, the order of the operations and every place where the Python raises are kept.
  A tensor carries its shape beside its entries, so that a batch with no rows still has a
  number of columns, as it has in the library.
\<close>

datatype error =
  AssertionError | IndexError | KeyError | RuntimeError | TypeError | NameError
  | NotImplementedError | ZeroDivisionError | UnboundLocalError | ValueError

text \<open>Sequencing of two computations that may raise: the first error stops the rest.\<close>

definition ebind :: "error + 'a \<Rightarrow> ('a \<Rightarrow> error + 'b) \<Rightarrow> error + 'b" where
  "ebind r f = (case r of Inl e \<Rightarrow> Inl e | Inr a \<Rightarrow> f a)"

record tensor2 =
  nrows :: nat
  ncols :: nat
  rws :: "real list list"

definition wf2 :: "tensor2 \<Rightarrow> bool" where
  "wf2 x = (length (rws x) = nrows x \<and> list_all (\<lambda>r. length r = ncols x) (rws x))"

record tensor3 =
  dim0 :: nat
  dim1 :: nat
  dim2 :: nat
  blocks :: "real list list list"

definition wf3 :: "tensor3 \<Rightarrow> bool" where
  "wf3 ys = (length (blocks ys) = dim0 ys \<and>
     list_all (\<lambda>b. length b = dim1 ys \<and> list_all (\<lambda>r. length r = dim2 ys) b) (blocks ys))"

text \<open>A result of \<^verbatim>\<open>Tensor.mean()\<close>: the mean of a tensor with no entry is not a number.\<close>

datatype scalar = Num real | NaN

definition pointwise :: "(real \<Rightarrow> real \<Rightarrow> real) \<Rightarrow> tensor2 \<Rightarrow> tensor2 \<Rightarrow> tensor2" where
  "pointwise f x y =
     \<lparr>nrows = nrows x, ncols = ncols x, rws = map2 (\<lambda>r s. map2 f r s) (rws x) (rws y)\<rparr>"

text \<open>
  Broadcasting of two 2-d shapes: along each axis the sizes agree or one of them is 1.
\<close>

definition bdim :: "nat \<Rightarrow> nat \<Rightarrow> nat option" where
  "bdim a b = (if a = b then Some a else if a = 1 then Some b else if b = 1 then Some a else None)"

definition expand :: "nat \<Rightarrow> nat \<Rightarrow> tensor2 \<Rightarrow> tensor2" where
  "expand r c x =
     (let rs = (if nrows x = r then rws x else replicate r (hd (rws x)))
      in \<lparr>nrows = r, ncols = c,
          rws = (if ncols x = c then rs else map (\<lambda>row. replicate c (hd row)) rs)\<rparr>)"

definition broadcast_op :: "(real \<Rightarrow> real \<Rightarrow> real) \<Rightarrow> tensor2 \<Rightarrow> tensor2 \<Rightarrow> error + tensor2" where
  "broadcast_op f x y =
     (case (bdim (nrows x) (nrows y), bdim (ncols x) (ncols y)) of
        (Some r, Some c) \<Rightarrow> Inr (pointwise f (expand r c x) (expand r c y))
      | _ \<Rightarrow> Inl RuntimeError)"

text \<open>\<^verbatim>\<open>a + b\<close> on tensors.\<close>

definition tensor_add :: "tensor2 \<Rightarrow> tensor2 \<Rightarrow> error + tensor2" where
  "tensor_add x y = broadcast_op (\<lambda>a b. a + b) x y"

text \<open>
  \<^verbatim>\<open>a += b\<close> on tensors: the sum is written into \<open>a\<close>, whose shape cannot change.
\<close>

definition tensor_iadd :: "tensor2 \<Rightarrow> tensor2 \<Rightarrow> error + tensor2" where
  "tensor_iadd x y =
     ebind (broadcast_op (\<lambda>a b. a + b) x y) (\<lambda>r.
       if nrows r = nrows x \<and> ncols r = ncols x then Inr r else Inl RuntimeError)"

text \<open>\<^verbatim>\<open>torch.nn.MSELoss(reduction='none')\<close>: the squared differences, not reduced.\<close>

definition criterion :: "tensor2 \<Rightarrow> tensor2 \<Rightarrow> error + tensor2" where
  "criterion y t = broadcast_op (\<lambda>a b. (a - b) * (a - b)) y t"

text \<open>\<^verbatim>\<open>ys[:, h, :]\<close> for a constant \<open>h \<ge> 0\<close>.\<close>

definition column :: "tensor3 \<Rightarrow> nat \<Rightarrow> tensor2" where
  "column ys h = \<lparr>nrows = dim0 ys, ncols = dim2 ys, rws = map (\<lambda>b. b ! h) (blocks ys)\<rparr>"

definition select_step :: "tensor3 \<Rightarrow> nat \<Rightarrow> error + tensor2" where
  "select_step ys h = (if h < dim1 ys then Inr (column ys h) else Inl IndexError)"

text \<open>\<^verbatim>\<open>t.mean()\<close>: the sum of all entries over their number.\<close>

definition mean :: "tensor2 \<Rightarrow> scalar" where
  "mean t =
     (if nrows t * ncols t = 0 then NaN
      else Num (sum_list (map sum_list (rws t)) / real (nrows t * ncols t)))"

subsection \<open>\<^verbatim>\<open>torch.nn.Linear\<close>\<close>

record linear =
  in_features :: nat
  out_features :: nat
  weight :: "real list list"
  bias :: "real list"

text \<open>The shapes the constructor gives the parameters: weight \<open>out \<times> in\<close>, bias \<open>out\<close>.\<close>

definition wf_linear :: "linear \<Rightarrow> bool" where
  "wf_linear L = (length (weight L) = out_features L \<and> length (bias L) = out_features L \<and>
     list_all (\<lambda>w. length w = in_features L) (weight L))"

definition dot :: "real list \<Rightarrow> real list \<Rightarrow> real" where
  "dot w r = sum_list (map2 (\<lambda>a b. a * b) w r)"

definition affine :: "linear \<Rightarrow> tensor2 \<Rightarrow> tensor2" where
  "affine L x =
     \<lparr>nrows = nrows x, ncols = out_features L,
      rws = map (\<lambda>r. map2 (\<lambda>w b. dot w r + b) (weight L) (bias L)) (rws x)\<rparr>"

definition linear_forward :: "linear \<Rightarrow> tensor2 \<Rightarrow> error + tensor2" where
  "linear_forward L x = (if ncols x = in_features L then Inr (affine L x) else Inl RuntimeError)"

text \<open>An activation module such as \<^verbatim>\<open>torch.nn.ReLU()\<close> acts entry by entry.\<close>

definition apply_activation :: "(real \<Rightarrow> real) \<Rightarrow> tensor2 \<Rightarrow> tensor2" where
  "apply_activation act x = x\<lparr>rws := map (map act) (rws x)\<rparr>"

definition relu :: "real \<Rightarrow> real" where
  "relu v = max 0 v"

section \<open>\<^verbatim>\<open>NNBlock\<close>\<close>

text \<open>
  The block registers the modules \<^verbatim>\<open>Linear_0 \<dots> Linear_{n_layers-1}\<close>; they are kept as a
  list, and \<^verbatim>\<open>self._modules['Linear_i']\<close> is the lookup of index \<open>i\<close>, a \<open>KeyError\<close>
  when no module has that name.
\<close>

record nnblock =
  linears :: "linear list"
  activation :: "real \<Rightarrow> real"

definition n_layers :: "nnblock \<Rightarrow> int" where
  "n_layers b = int (length (linears b))"

definition get_linear :: "nnblock \<Rightarrow> int \<Rightarrow> error + linear" where
  "get_linear b i =
     (if 0 \<le> i \<and> i < int (length (linears b)) then Inr (linears b ! nat i) else Inl KeyError)"

text \<open>The loop \<^verbatim>\<open>for i in range(self.n_layers - 1)\<close> of \<^verbatim>\<open>NNBlock.forward\<close>.\<close>

fun hidden_layers :: "nnblock \<Rightarrow> nat list \<Rightarrow> tensor2 \<Rightarrow> error + tensor2" where
  "hidden_layers b [] x = Inr x"
| "hidden_layers b (i # is) x =
     ebind (get_linear b (int i)) (\<lambda>L.
     ebind (linear_forward L x) (\<lambda>y.
     hidden_layers b is (apply_activation (activation b) y)))"

definition nnblock_forward :: "nnblock \<Rightarrow> tensor2 \<Rightarrow> error + tensor2" where
  "nnblock_forward b x =
     ebind (hidden_layers b [0 ..< nat (n_layers b - 1)] x) (\<lambda>x.
     ebind (get_linear b (n_layers b - 1)) (\<lambda>L.
     linear_forward L x))"

section \<open>\<^verbatim>\<open>ResNet\<close>\<close>

record resnet =
  n_dim :: nat
  dt :: real
  step_size :: int
  large :: nnblock
  small :: nnblock

text \<open>\<^verbatim>\<open>self._modules[key]\<close>: the two blocks registered by the constructor.\<close>

definition get_module :: "resnet \<Rightarrow> string \<Rightarrow> error + nnblock" where
  "get_module m key =
     (if key = ''large'' then Inr (large m)
      else if key = ''small'' then Inr (small m)
      else Inl KeyError)"

text \<open>
  The dataset object comes from \<^verbatim>\<open>utils_multiscale\<close>; the fields the model reads are the
  ones below.
\<close>

record dataset =
  ds_n_dim :: nat
  ds_dt :: real
  ds_step_size :: int
  n_train :: nat
  train_x :: tensor2
  train_ys :: tensor3
  val_x :: tensor2
  val_ys :: tensor3

definition check_data_info :: "resnet \<Rightarrow> dataset \<Rightarrow> error + unit" where
  "check_data_info m d =
     (if n_dim m \<noteq> ds_n_dim d then Inl AssertionError
      else if dt m \<noteq> ds_dt d then Inl AssertionError
      else if step_size m \<noteq> ds_step_size d then Inl AssertionError
      else Inr ())"

text \<open>\<^verbatim>\<open>forward(x_init, step_size)\<close>: \<^verbatim>\<open>x_init + self._modules[step_size](x_init)\<close>.\<close>

definition forward :: "resnet \<Rightarrow> tensor2 \<Rightarrow> string \<Rightarrow> error + tensor2" where
  "forward m x_init key =
     ebind (get_module m key) (\<lambda>b.
     ebind (nnblock_forward b x_init) (\<lambda>r.
     tensor_add x_init r))"

section \<open>\<^verbatim>\<open>ResNet.calculate_loss\<close>\<close>

text \<open>
  The statement \<^verbatim>\<open>loss += criterion(y_next, ys[:,h,:])\<close>: the column is read first, then
  the criterion is applied, then the result is added into \<open>loss\<close>.
\<close>

definition add_loss :: "tensor2 \<Rightarrow> tensor2 \<Rightarrow> tensor3 \<Rightarrow> nat \<Rightarrow> error + tensor2" where
  "add_loss loss y_next ys h =
     ebind (select_step ys h) (\<lambda>t.
     ebind (criterion y_next t) (\<lambda>c.
     tensor_iadd loss c))"

text \<open>Lines 186--189, \<^verbatim>\<open>#4 needs just small\<close>; here \<open>loss\<close> is first assigned.\<close>

definition loss_terms_4 :: "resnet \<Rightarrow> tensor2 \<Rightarrow> tensor3 \<Rightarrow> error + tensor2" where
  "loss_terms_4 m x ys =
     ebind (forward m x ''small'') (\<lambda>y_next.
     ebind (select_step ys 0) (\<lambda>t.
     criterion y_next t))"

text \<open>Lines 191--196, \<^verbatim>\<open>#8 is 2 smalls or a large\<close>.\<close>

definition loss_terms_8 :: "resnet \<Rightarrow> tensor2 \<Rightarrow> tensor3 \<Rightarrow> tensor2 \<Rightarrow> error + tensor2" where
  "loss_terms_8 m x ys loss =
     ebind (forward m x ''small'') (\<lambda>y.
     ebind (forward m y ''small'') (\<lambda>y_next.
     ebind (add_loss loss y_next ys 1) (\<lambda>loss.
     ebind (forward m x ''large'') (\<lambda>y_next.
     add_loss loss y_next ys 1))))"

text \<open>
  Lines 198--206, \<^verbatim>\<open>#for 12, need big and small in either order\<close>. The second
  composition (\<^verbatim>\<open>#need same other way\<close>) is evaluated, and no statement adds it to
  \<open>loss\<close>.
\<close>

definition loss_terms_12 :: "resnet \<Rightarrow> tensor2 \<Rightarrow> tensor3 \<Rightarrow> tensor2 \<Rightarrow> error + tensor2" where
  "loss_terms_12 m x ys loss =
     ebind (forward m x ''small'') (\<lambda>y_next.
     ebind (forward m y_next ''large'') (\<lambda>y_next.
     ebind (add_loss loss y_next ys 2) (\<lambda>loss.
     ebind (forward m x ''large'') (\<lambda>y_next.
     ebind (forward m y_next ''small'') (\<lambda>y_next.
     Inr loss)))))"

text \<open>Lines 209--232, \<^verbatim>\<open>#for 16\<close>.\<close>

definition loss_terms_16 :: "resnet \<Rightarrow> tensor2 \<Rightarrow> tensor3 \<Rightarrow> tensor2 \<Rightarrow> error + tensor2" where
  "loss_terms_16 m x ys loss =
     ebind (forward m x ''large'') (\<lambda>y_next.
     ebind (forward m y_next ''large'') (\<lambda>y_next.
     ebind (add_loss loss y_next ys 3) (\<lambda>loss.
     ebind (forward m x ''small'') (\<lambda>y_next.
     ebind (forward m y_next ''small'') (\<lambda>y_next.
     ebind (forward m y_next ''small'') (\<lambda>y_next.
     ebind (forward m y_next ''small'') (\<lambda>y_next.
     ebind (add_loss loss y_next ys 3) (\<lambda>loss.
     ebind (forward m x ''small'') (\<lambda>y_next.
     ebind (forward m y_next ''small'') (\<lambda>y_next.
     ebind (forward m y_next ''large'') (\<lambda>y_next.
     ebind (add_loss loss y_next ys 3) (\<lambda>loss.
     ebind (forward m x ''large'') (\<lambda>y_next.
     ebind (forward m y_next ''small'') (\<lambda>y_next.
     ebind (forward m y_next ''small'') (\<lambda>y_next.
     add_loss loss y_next ys 3)))))))))))))))"

text \<open>Lines 235--251 of \<^verbatim>\<open>#for 20 there is even more\<close>: the compositions with two large steps.\<close>

definition loss_terms_20a :: "resnet \<Rightarrow> tensor2 \<Rightarrow> tensor3 \<Rightarrow> tensor2 \<Rightarrow> error + tensor2" where
  "loss_terms_20a m x ys loss =
     ebind (forward m x ''large'') (\<lambda>y_next.
     ebind (forward m y_next ''large'') (\<lambda>y_next.
     ebind (forward m y_next ''small'') (\<lambda>y_next.
     ebind (add_loss loss y_next ys 4) (\<lambda>loss.
     ebind (forward m x ''small'') (\<lambda>y_next.
     ebind (forward m y_next ''large'') (\<lambda>y_next.
     ebind (forward m y_next ''large'') (\<lambda>y_next.
     ebind (add_loss loss y_next ys 4) (\<lambda>loss.
     ebind (forward m x ''large'') (\<lambda>y_next.
     ebind (forward m y_next ''small'') (\<lambda>y_next.
     ebind (forward m y_next ''large'') (\<lambda>y_next.
     add_loss loss y_next ys 4)))))))))))"

text \<open>Lines 253--285: five small steps, and one large step among three small ones.\<close>

definition loss_terms_20b :: "resnet \<Rightarrow> tensor2 \<Rightarrow> tensor3 \<Rightarrow> tensor2 \<Rightarrow> error + tensor2" where
  "loss_terms_20b m x ys loss =
     ebind (forward m x ''small'') (\<lambda>y_next.
     ebind (forward m y_next ''small'') (\<lambda>y_next.
     ebind (forward m y_next ''small'') (\<lambda>y_next.
     ebind (forward m y_next ''small'') (\<lambda>y_next.
     ebind (forward m y_next ''small'') (\<lambda>y_next.
     ebind (add_loss loss y_next ys 4) (\<lambda>loss.
     ebind (forward m x ''large'') (\<lambda>y_next.
     ebind (forward m y_next ''small'') (\<lambda>y_next.
     ebind (forward m y_next ''small'') (\<lambda>y_next.
     ebind (forward m y_next ''small'') (\<lambda>y_next.
     ebind (add_loss loss y_next ys 4) (\<lambda>loss.
     ebind (forward m x ''small'') (\<lambda>y_next.
     ebind (forward m y_next ''large'') (\<lambda>y_next.
     ebind (forward m y_next ''small'') (\<lambda>y_next.
     ebind (forward m y_next ''small'') (\<lambda>y_next.
     ebind (add_loss loss y_next ys 4) (\<lambda>loss.
     ebind (forward m x ''small'') (\<lambda>y_next.
     ebind (forward m y_next ''small'') (\<lambda>y_next.
     ebind (forward m y_next ''large'') (\<lambda>y_next.
     ebind (forward m y_next ''small'') (\<lambda>y_next.
     ebind (add_loss loss y_next ys 4) (\<lambda>loss.
     ebind (forward m x ''small'') (\<lambda>y_next.
     ebind (forward m y_next ''small'') (\<lambda>y_next.
     ebind (forward m y_next ''small'') (\<lambda>y_next.
     ebind (forward m y_next ''large'') (\<lambda>y_next.
     add_loss loss y_next ys 4)))))))))))))))))))))))))"

text \<open>
  The whole function up to its \<^verbatim>\<open>return loss.mean()\<close> of line 287 (the statements after it
  are never reached). The weight \<open>w\<close> is not read on this path.
\<close>

definition calculate_loss :: "resnet \<Rightarrow> tensor2 \<Rightarrow> tensor3 \<Rightarrow> error + scalar" where
  "calculate_loss m x ys =
     (if dim2 ys \<noteq> n_dim m then Inl AssertionError
      else
        ebind (loss_terms_4 m x ys) (\<lambda>loss.
        ebind (loss_terms_8 m x ys loss) (\<lambda>loss.
        ebind (loss_terms_12 m x ys loss) (\<lambda>loss.
        ebind (loss_terms_16 m x ys loss) (\<lambda>loss.
        ebind (loss_terms_20a m x ys loss) (\<lambda>loss.
        ebind (loss_terms_20b m x ys loss) (\<lambda>loss.
        Inr (mean loss))))))))"

section \<open>The specification's reading of the model\<close>

text \<open>
  What the constructors establish: every layer has the shapes of its \<^verbatim>\<open>Linear(arch[i],
  arch[i+1])\<close>, consecutive layers fit, there is at least one layer, and
  \<^verbatim>\<open>arch[0] == arch[-1]\<close> is the state dimension.
\<close>

fun chain :: "nat \<Rightarrow> linear list \<Rightarrow> nat \<Rightarrow> bool" where
  "chain a [] c = (a = c)"
| "chain a (L # Ls) c = (in_features L = a \<and> chain (out_features L) Ls c)"

definition wf_block :: "nat \<Rightarrow> nnblock \<Rightarrow> bool" where
  "wf_block d b = (linears b \<noteq> [] \<and> list_all wf_linear (linears b) \<and> chain d (linears b) d)"

definition wf_resnet :: "resnet \<Rightarrow> bool" where
  "wf_resnet m = (wf_block (n_dim m) (large m) \<and> wf_block (n_dim m) (small m))"

text \<open>
  The residual block in the specification's words: the affine layers in order, the
  nonlinearity after each of them but the last.
\<close>

definition hidden_step :: "(real \<Rightarrow> real) \<Rightarrow> tensor2 \<Rightarrow> linear \<Rightarrow> tensor2" where
  "hidden_step act x L = apply_activation act (affine L x)"

definition residual_block :: "nnblock \<Rightarrow> tensor2 \<Rightarrow> tensor2" where
  "residual_block b x =
     affine (last (linears b)) (foldl (hidden_step (activation b)) x (butlast (linears b)))"

definition block_of :: "resnet \<Rightarrow> string \<Rightarrow> nnblock" where
  "block_of m which = (if which = ''large'' then large m else small m)"

text \<open>\<open>step(x, which)\<close> is \<open>x + ResidualBlock[which](x)\<close>, entry by entry.\<close>

definition step :: "resnet \<Rightarrow> string \<Rightarrow> tensor2 \<Rightarrow> tensor2" where
  "step m which x = pointwise (\<lambda>a b. a + b) x (residual_block (block_of m which) x)"

text \<open>\<open>compose(x, sequence_of_which)\<close> applies \<open>step\<close> in the given order.\<close>

definition compose :: "resnet \<Rightarrow> string list \<Rightarrow> tensor2 \<Rightarrow> tensor2" where
  "compose m seq x = foldl (\<lambda>y which. step m which y) x seq"

definition squared_error :: "tensor2 \<Rightarrow> tensor2 \<Rightarrow> tensor2" where
  "squared_error y t = pointwise (\<lambda>a b. (a - b) * (a - b)) y t"

text \<open>
  The composition branches whose error the loss adds, each with the column of \<open>ys\<close> it is
  compared with, in the order of the source.
\<close>

definition loss_branches :: "(string list \<times> nat) list" where
  "loss_branches =
     [([''small''], 0),
      ([''small'', ''small''], 1),
      ([''large''], 1),
      ([''small'', ''large''], 2),
      ([''large'', ''large''], 3),
      ([''small'', ''small'', ''small'', ''small''], 3),
      ([''small'', ''small'', ''large''], 3),
      ([''large'', ''small'', ''small''], 3),
      ([''large'', ''large'', ''small''], 4),
      ([''small'', ''large'', ''large''], 4),
      ([''large'', ''small'', ''large''], 4),
      ([''small'', ''small'', ''small'', ''small'', ''small''], 4),
      ([''large'', ''small'', ''small'', ''small''], 4),
      ([''small'', ''large'', ''small'', ''small''], 4),
      ([''small'', ''small'', ''large'', ''small''], 4),
      ([''small'', ''small'', ''small'', ''large''], 4)]"

definition branch_error :: "resnet \<Rightarrow> tensor2 \<Rightarrow> tensor3 \<Rightarrow> string list \<times> nat \<Rightarrow> tensor2" where
  "branch_error m x ys br = squared_error (compose m (fst br) x) (column ys (snd br))"

definition sum_tensors :: "tensor2 list \<Rightarrow> tensor2" where
  "sum_tensors ts = foldl (pointwise (\<lambda>a b. a + b)) (hd ts) (tl ts)"

definition branch_loss :: "resnet \<Rightarrow> tensor2 \<Rightarrow> tensor3 \<Rightarrow> scalar" where
  "branch_loss m x ys = mean (sum_tensors (map (branch_error m x ys) loss_branches))"

section \<open>\<^verbatim>\<open>ResNet.train_net\<close>\<close>

text \<open>
  \<^verbatim>\<open>t[idxs, :]\<close> and \<^verbatim>\<open>t[idxs, :, :]\<close> for a tensor of indices: the rows named, in order;
  an index past the first axis raises.
\<close>

definition index_rows :: "tensor2 \<Rightarrow> nat list \<Rightarrow> error + tensor2" where
  "index_rows x idxs =
     (if list_all (\<lambda>i. i < nrows x) idxs
      then Inr \<lparr>nrows = length idxs, ncols = ncols x, rws = map (\<lambda>i. rws x ! i) idxs\<rparr>
      else Inl IndexError)"

definition index_blocks :: "tensor3 \<Rightarrow> nat list \<Rightarrow> error + tensor3" where
  "index_blocks ys idxs =
     (if list_all (\<lambda>i. i < dim0 ys) idxs
      then Inr \<lparr>dim0 = length idxs, dim1 = dim1 ys, dim2 = dim2 ys,
                blocks = map (\<lambda>i. blocks ys ! i) idxs\<rparr>
      else Inl IndexError)"

text \<open>
  The local variables of \<^verbatim>\<open>train_net\<close> that outlive an iteration, the model itself, and
  two records of what the run did: the number of \<^verbatim>\<open>optimizer.step()\<close> calls and the
  \<^verbatim>\<open>torch.save\<close> calls (the epoch and the model written). \<open>val_loss\<close> is unbound until
  the first iteration assigns it.
\<close>

record 'o train_state =
  epoch :: nat
  best_loss :: real
  val_loss :: "scalar option"
  net :: resnet
  optim :: 'o
  opt_steps :: nat
  saved :: "(nat \<times> resnet) list"

text \<open>How the \<^verbatim>\<open>while\<close> loop is left: by its \<^verbatim>\<open>break\<close>, or by its condition.\<close>

datatype exit_reason = Converged | Exhausted

definition threshold :: real where
  "threshold = 1 / 10 ^ 8"

definition initial_best_loss :: real where
  "initial_best_loss = 10 ^ 5"

text \<open>
  Lines 153--164, the \<^verbatim>\<open>log\<close> block after the optimizer step. The comparison
  \<^verbatim>\<open>val_loss.item() < best_loss\<close> is false for a loss that is not a number.
\<close>

definition log_and_save :: "string option \<Rightarrow> scalar \<Rightarrow> 'o train_state \<Rightarrow> 'o train_state" where
  "log_and_save model_path vl s =
     (if epoch s mod 1000 = 0 then
        (case vl of
           NaN \<Rightarrow> s
         | Num v \<Rightarrow>
             if v < best_loss s then
               (let s = s\<lparr>best_loss := v\<rparr>
                in if model_path \<noteq> None then s\<lparr>saved := saved s @ [(epoch s, net s)]\<rparr> else s)
             else s)
      else s)"

text \<open>
  One pass through the body of the loop (lines 134--164); the flag returned is whether the
  body ended in \<^verbatim>\<open>break\<close>. Two collaborators are parameters: \<open>randperm e n\<close> is what
  \<^verbatim>\<open>torch.randperm(n)\<close> returns in iteration \<open>e\<close>, and \<open>opt_step\<close> is the effect of
  \<^verbatim>\<open>optimizer.zero_grad(); train_loss.backward(); optimizer.step()\<close> on the optimizer and on
  the parameters, for the batch the training loss was computed on.
\<close>

definition train_iteration ::
  "(nat \<Rightarrow> nat \<Rightarrow> nat list) \<Rightarrow> ('o \<Rightarrow> resnet \<Rightarrow> tensor2 \<Rightarrow> tensor3 \<Rightarrow> 'o \<times> resnet) \<Rightarrow>
   dataset \<Rightarrow> nat \<Rightarrow> string option \<Rightarrow> 'o train_state \<Rightarrow> error + ('o train_state \<times> bool)" where
  "train_iteration randperm opt_step d batch_size model_path s =
     (let s = s\<lparr>epoch := epoch s + 1\<rparr>;
          n_samples = n_train d;
          new_idxs = randperm (epoch s) n_samples
      in
        ebind (index_rows (train_x d) (take batch_size new_idxs)) (\<lambda>batch_x.
        ebind (index_blocks (train_ys d) (take batch_size new_idxs)) (\<lambda>batch_ys.
        ebind (calculate_loss (net s) batch_x batch_ys) (\<lambda>train_loss.
        ebind (calculate_loss (net s) (val_x d) (val_ys d)) (\<lambda>vl.
        let s = s\<lparr>val_loss := Some vl\<rparr> in
        if best_loss s \<le> threshold then Inr (s, True)
        else
          (let (opt', net') = opt_step (optim s) (net s) batch_x batch_ys;
               s = s\<lparr>optim := opt', net := net', opt_steps := opt_steps s + 1\<rparr>
           in Inr (log_and_save model_path vl s, False)))))))"

lemma ebind_cong [fundef_cong]:
  "r = r' \<Longrightarrow> (\<And>a. r' = Inr a \<Longrightarrow> f a = f' a) \<Longrightarrow> ebind r f = ebind r' f'"
  by (cases r') (simp_all add: ebind_def)

lemma train_iteration_epoch:
  "train_iteration randperm opt_step d batch_size model_path s = Inr (s', brk) \<Longrightarrow>
   epoch s' = epoch s + 1"
  by (auto simp: train_iteration_def ebind_def Let_def log_and_save_def
      split: sum.splits if_splits prod.splits scalar.splits)

text \<open>The loop \<^verbatim>\<open>while epoch < max_epoch\<close>.\<close>

function train_loop ::
  "(nat \<Rightarrow> nat \<Rightarrow> nat list) \<Rightarrow> ('o \<Rightarrow> resnet \<Rightarrow> tensor2 \<Rightarrow> tensor3 \<Rightarrow> 'o \<times> resnet) \<Rightarrow>
   dataset \<Rightarrow> int \<Rightarrow> nat \<Rightarrow> string option \<Rightarrow> 'o train_state \<Rightarrow>
   error + ('o train_state \<times> exit_reason)" where
  "train_loop randperm opt_step d max_epoch batch_size model_path s =
     (if int (epoch s) < max_epoch then
        ebind (train_iteration randperm opt_step d batch_size model_path s) (\<lambda>(s', brk).
          if brk then Inr (s', Converged)
          else train_loop randperm opt_step d max_epoch batch_size model_path s')
      else Inr (s, Exhausted))"
  by pat_completeness auto
termination
  by (relation "measure (\<lambda>(randperm, opt_step, d, max_epoch, batch_size, model_path, s).
        nat (max_epoch - int (epoch s)))")
     (auto dest: train_iteration_epoch)

declare train_loop.simps [simp del]

definition initial_state :: "resnet \<Rightarrow> 'o \<Rightarrow> 'o train_state" where
  "initial_state m opt_init =
     \<lparr>epoch = 0, best_loss = initial_best_loss, val_loss = None, net = m, optim = opt_init,
      opt_steps = 0, saved = []\<rparr>"

text \<open>Lines 166--169, \<^verbatim>\<open># if to save at the end\<close>.\<close>

definition save_at_end :: "string option \<Rightarrow> 'o train_state \<Rightarrow> error + 'o train_state" where
  "save_at_end model_path s =
     (case val_loss s of
        None \<Rightarrow> Inl UnboundLocalError
      | Some NaN \<Rightarrow> Inr s
      | Some (Num v) \<Rightarrow>
          if v < best_loss s \<and> model_path \<noteq> None
          then Inr (s\<lparr>saved := saved s @ [(epoch s, net s)]\<rparr>)
          else Inr s)"

text \<open>
  \<^verbatim>\<open>train_net\<close>; \<open>opt_init\<close> is the state of the optimizer that
  \<^verbatim>\<open>torch.optim.Adam(self.parameters(), lr=lr)\<close> creates.
\<close>

definition train_net ::
  "(nat \<Rightarrow> nat \<Rightarrow> nat list) \<Rightarrow> ('o \<Rightarrow> resnet \<Rightarrow> tensor2 \<Rightarrow> tensor3 \<Rightarrow> 'o \<times> resnet) \<Rightarrow> 'o \<Rightarrow>
   resnet \<Rightarrow> dataset \<Rightarrow> int \<Rightarrow> nat \<Rightarrow> string option \<Rightarrow>
   error + ('o train_state \<times> exit_reason)" where
  "train_net randperm opt_step opt_init m d max_epoch batch_size model_path =
     ebind (check_data_info m d) (\<lambda>_.
     ebind (train_loop randperm opt_step d max_epoch batch_size model_path (initial_state m opt_init))
       (\<lambda>(s, reason).
     ebind (save_at_end model_path s) (\<lambda>s.
     Inr (s, reason))))"

section \<open>A small model and data to run the definitions on\<close>

text \<open>
  State dimension 1. The small block is two layers with a ReLU between them and computes
  \<open>relu x\<close>; the large block is one layer and computes the constant 3.
\<close>

definition unit_layer :: "real \<Rightarrow> real \<Rightarrow> linear" where
  "unit_layer w b = \<lparr>in_features = 1, out_features = 1, weight = [[w]], bias = [b]\<rparr>"

definition demo_net :: resnet where
  "demo_net =
     \<lparr>n_dim = 1, dt = 1 / 100, step_size = 4,
      large = \<lparr>linears = [unit_layer 0 3], activation = relu\<rparr>,
      small = \<lparr>linears = [unit_layer 1 0, unit_layer 1 0], activation = relu\<rparr>\<rparr>"

definition demo_x :: tensor2 where
  "demo_x = \<lparr>nrows = 2, ncols = 1, rws = [[1], [- 1]]\<rparr>"

definition demo_ys :: tensor3 where
  "demo_ys = \<lparr>dim0 = 2, dim1 = 5, dim2 = 1,
     blocks = [[[2], [4], [5], [8], [9]], [[- 1], [2], [2], [5], [5]]]\<rparr>"

text \<open>The same targets with the last horizon missing.\<close>

definition demo_ys4 :: tensor3 where
  "demo_ys4 = \<lparr>dim0 = 2, dim1 = 4, dim2 = 1,
     blocks = [[[2], [4], [5], [8]], [[- 1], [2], [2], [5]]]\<rparr>"

text \<open>
  What a run of the loop relies on: the dataset has the shapes of section 3 of the
  specification with at least five horizon columns, \<open>randperm e n\<close> is a permutation of
  \<open>0 ..< n\<close>, and the optimizer step keeps a property \<open>P\<close> of the model that implies the
  shapes the constructor gave it.
\<close>

definition dataset_ok :: "nat \<Rightarrow> dataset \<Rightarrow> bool" where
  "dataset_ok nd d =
     (n_train d = nrows (train_x d) \<and> ncols (train_x d) = nd \<and>
      dim0 (train_ys d) = nrows (train_x d) \<and> dim2 (train_ys d) = nd \<and> 5 \<le> dim1 (train_ys d) \<and>
      ncols (val_x d) = nd \<and>
      dim0 (val_ys d) = nrows (val_x d) \<and> dim2 (val_ys d) = nd \<and> 5 \<le> dim1 (val_ys d))"

definition randperm_ok :: "(nat \<Rightarrow> nat \<Rightarrow> nat list) \<Rightarrow> bool" where
  "randperm_ok randperm = (\<forall>e n. set (randperm e n) = {0 ..< n} \<and> distinct (randperm e n))"

definition optimizer_keeps ::
  "(resnet \<Rightarrow> bool) \<Rightarrow> nat \<Rightarrow> ('o \<Rightarrow> resnet \<Rightarrow> tensor2 \<Rightarrow> tensor3 \<Rightarrow> 'o \<times> resnet) \<Rightarrow> bool" where
  "optimizer_keeps P nd opt_step =
     ((\<forall>m. P m \<longrightarrow> wf_resnet m \<and> n_dim m = nd) \<and>
      (\<forall>opt m bx bys. P m \<longrightarrow> P (snd (opt_step opt m bx bys))))"

section \<open>A run of the training loop to evaluate\<close>

text \<open>
  A model whose blocks have one layer with weights and bias 0, so that a step returns its
  input; data whose targets equal the inputs at every horizon, so that every loss is 0;
  the identity permutation as the outcome of \<^verbatim>\<open>randperm\<close>; and an optimizer step that
  leaves the parameters as they are, as Adam does with learning rate 0.
\<close>

definition zero_layer :: "nat \<Rightarrow> linear" where
  "zero_layer n =
     \<lparr>in_features = n, out_features = n, weight = replicate n (replicate n 0),
      bias = replicate n 0\<rparr>"

definition still_net :: "nat \<Rightarrow> resnet" where
  "still_net n =
     \<lparr>n_dim = n, dt = 1 / 100, step_size = 4,
      large = \<lparr>linears = [zero_layer n], activation = relu\<rparr>,
      small = \<lparr>linears = [zero_layer n], activation = relu\<rparr>\<rparr>"

definition constant_data :: "nat \<Rightarrow> nat \<Rightarrow> nat \<Rightarrow> dataset" where
  "constant_data n_tr n_val n =
     \<lparr>ds_n_dim = n, ds_dt = 1 / 100, ds_step_size = 4, n_train = n_tr,
      train_x = \<lparr>nrows = n_tr, ncols = n, rws = replicate n_tr (replicate n 1)\<rparr>,
      train_ys = \<lparr>dim0 = n_tr, dim1 = 5, dim2 = n,
        blocks = replicate n_tr (replicate 5 (replicate n 1))\<rparr>,
      val_x = \<lparr>nrows = n_val, ncols = n, rws = replicate n_val (replicate n 1)\<rparr>,
      val_ys = \<lparr>dim0 = n_val, dim1 = 5, dim2 = n,
        blocks = replicate n_val (replicate 5 (replicate n 1))\<rparr>\<rparr>"

definition first_indices :: "nat \<Rightarrow> nat \<Rightarrow> nat list" where
  "first_indices e n = [0 ..< n]"

definition no_update :: "unit \<Rightarrow> resnet \<Rightarrow> tensor2 \<Rightarrow> tensor3 \<Rightarrow> unit \<times> resnet" where
  "no_update opt m batch_x batch_ys = (opt, m)"

text \<open>
  The state that run is in after 1000 iterations: the validation loss 0 was recorded as
  \<open>best_loss\<close> at epoch 1000.
\<close>

definition late_state :: "unit train_state" where
  "late_state =
     \<lparr>epoch = 1000, best_loss = 0, val_loss = Some (Num 0), net = still_net 1, optim = (),
      opt_steps = 1000, saved = []\<rparr>"

section \<open>\<^verbatim>\<open>ResNet.uni_scale_forecast\<close>\<close>

text \<open>
  A call of the method \<^verbatim>\<open>forward(self, x_init, step_size)\<close>: neither parameter has a
  default, so a call that passes no \<open>step_size\<close> raises \<open>TypeError\<close> before the body runs.
\<close>

definition call_forward :: "resnet \<Rightarrow> tensor2 \<Rightarrow> string option \<Rightarrow> error + tensor2" where
  "call_forward m x_init step_size_arg =
     (case step_size_arg of
        None \<Rightarrow> Inl TypeError
      | Some key \<Rightarrow> forward m x_init key)"

text \<open>
  Lines 97--102: the loop \<^verbatim>\<open>while cur_step < n_steps + self.step_size\<close>, whose body starts
  with \<^verbatim>\<open>x_next = self.forward(x_prev)\<close>.
\<close>

function uni_scale_loop ::
  "resnet \<Rightarrow> int \<Rightarrow> int \<Rightarrow> tensor2 \<Rightarrow> int list \<Rightarrow> tensor2 list \<Rightarrow>
   error + (int list \<times> tensor2 list)" where
  "uni_scale_loop m n_steps cur_step x_prev steps preds =
     (if cur_step < n_steps + step_size m then
        ebind (call_forward m x_prev None) (\<lambda>x_next.
          uni_scale_loop m n_steps (cur_step + step_size m) x_next
            (steps @ [cur_step]) (preds @ [x_next]))
      else Inr (steps, preds))"
  by pat_completeness auto
termination
  by (relation "{}") (simp_all add: call_forward_def)

declare uni_scale_loop.simps [simp del]

text \<open>
  The whole function. Its last lines stack the predictions, build
  \<^verbatim>\<open>scipy.interpolate.interp1d(steps, preds, kind='linear')\<close> and evaluate it at
  \<^verbatim>\<open>range(n_steps)\<close>; that library call is the parameter \<open>interp1d\<close>.
\<close>

definition uni_scale_forecast ::
  "(int list \<Rightarrow> tensor2 list \<Rightarrow> int list \<Rightarrow> error + tensor3) \<Rightarrow>
   resnet \<Rightarrow> tensor2 \<Rightarrow> int \<Rightarrow> error + tensor3" where
  "uni_scale_forecast interp1d m x_init n_steps =
     (let sample_steps = map int [0 ..< nat n_steps] in
      ebind (uni_scale_loop m n_steps (step_size m - 1) x_init [] []) (\<lambda>(steps, preds).
      interp1d (0 # steps) (x_init # preds) sample_steps))"

section \<open>\<^verbatim>\<open>ResNet.vectorized_multi_scale_forecast\<close>\<close>

text \<open>Indexing a Python list, and an axis of a tensor: a negative index counts from the end.\<close>

definition norm_index :: "nat \<Rightarrow> int \<Rightarrow> nat option" where
  "norm_index n i =
     (if 0 \<le> i \<and> i < int n then Some (nat i)
      else if - int n \<le> i \<and> i < 0 then Some (nat (i + int n))
      else None)"

definition py_index :: "'a list \<Rightarrow> int \<Rightarrow> error + 'a" where
  "py_index xs i = (case norm_index (length xs) i of None \<Rightarrow> Inl IndexError | Some j \<Rightarrow> Inr (xs ! j))"

definition norm_indices :: "nat \<Rightarrow> int list \<Rightarrow> nat list option" where
  "norm_indices n idxs =
     (if list_all (\<lambda>i. norm_index n i \<noteq> None) idxs
      then Some (map (\<lambda>i. the (norm_index n i)) idxs) else None)"

text \<open>\<^verbatim>\<open>torch.zeros(a, b, c)\<close>, where \<open>b\<close> is computed and may be negative.\<close>

definition zeros :: "nat \<Rightarrow> int \<Rightarrow> nat \<Rightarrow> error + tensor3" where
  "zeros a b c =
     (if b < 0 then Inl RuntimeError
      else Inr \<lparr>dim0 = a, dim1 = nat b, dim2 = c,
                blocks = replicate a (replicate (nat b) (replicate c 0))\<rparr>)"

text \<open>\<^verbatim>\<open>t[:, i, :]\<close> and \<^verbatim>\<open>t[:, idxs, :]\<close>, read and assigned.\<close>

definition get_step :: "tensor3 \<Rightarrow> int \<Rightarrow> error + tensor2" where
  "get_step t i =
     (case norm_index (dim1 t) i of
        None \<Rightarrow> Inl IndexError
      | Some j \<Rightarrow> Inr (column t j))"

definition get_steps :: "tensor3 \<Rightarrow> int list \<Rightarrow> error + tensor3" where
  "get_steps t idxs =
     (case norm_indices (dim1 t) idxs of
        None \<Rightarrow> Inl IndexError
      | Some js \<Rightarrow>
          Inr \<lparr>dim0 = dim0 t, dim1 = length js, dim2 = dim2 t,
               blocks = map (\<lambda>b. map (\<lambda>j. b ! j) js) (blocks t)\<rparr>)"

definition set_step :: "tensor3 \<Rightarrow> int \<Rightarrow> tensor2 \<Rightarrow> error + tensor3" where
  "set_step t i v =
     (case norm_index (dim1 t) i of
        None \<Rightarrow> Inl IndexError
      | Some j \<Rightarrow>
          if nrows v = dim0 t \<and> ncols v = dim2 t
          then Inr (t\<lparr>blocks := map2 (\<lambda>b r. b[j := r]) (blocks t) (rws v)\<rparr>)
          else Inl RuntimeError)"

definition set_steps :: "tensor3 \<Rightarrow> int list \<Rightarrow> tensor3 \<Rightarrow> error + tensor3" where
  "set_steps t idxs v =
     (case norm_indices (dim1 t) idxs of
        None \<Rightarrow> Inl IndexError
      | Some js \<Rightarrow>
          if dim0 v = dim0 t \<and> dim1 v = length js \<and> dim2 v = dim2 t
          then Inr (t\<lparr>blocks :=
                 map2 (\<lambda>b vb. fold (\<lambda>(j, r) b. b[j := r]) (zip js vb) b) (blocks t) (blocks v)\<rparr>)
          else Inl RuntimeError)"

text \<open>
  \<^verbatim>\<open>reshape\<close> keeps the entries in row-major order. With one size given as \<open>-1\<close> the
  others must divide the number of entries, and must not multiply to 0.
\<close>

fun chunks :: "nat \<Rightarrow> 'a list \<Rightarrow> 'a list list" where
  "chunks n xs = (if n = 0 \<or> xs = [] then [] else take n xs # chunks n (drop n xs))"

declare chunks.simps [simp del]

definition reshape_rows :: "tensor3 \<Rightarrow> nat \<Rightarrow> error + tensor2" where
  "reshape_rows t c =
     (let numel = dim0 t * dim1 t * dim2 t in
      if c = 0 \<or> numel mod c \<noteq> 0 then Inl RuntimeError
      else Inr \<lparr>nrows = numel div c, ncols = c, rws = chunks c (concat (concat (blocks t)))\<rparr>)"

definition reshape_steps :: "tensor2 \<Rightarrow> nat \<Rightarrow> nat \<Rightarrow> error + tensor3" where
  "reshape_steps y a c =
     (let numel = nrows y * ncols y in
      if a * c = 0 \<or> numel mod (a * c) \<noteq> 0 then Inl RuntimeError
      else
        (let k = numel div (a * c)
         in Inr \<lparr>dim0 = a, dim1 = k, dim2 = c,
                 blocks = (if k = 0 then replicate a []
                           else chunks k (chunks c (concat (rws y))))\<rparr>))"

text \<open>\<^verbatim>\<open>int(a / b)\<close> on integers: the quotient, rounded towards zero.\<close>

definition int_of_quotient :: "int \<Rightarrow> int \<Rightarrow> error + int" where
  "int_of_quotient a b =
     (if b = 0 then Inl ZeroDivisionError else Inr (sgn a * sgn b * (\<bar>a\<bar> div \<bar>b\<bar>)))"

text \<open>\<^verbatim>\<open>[val for tup in zip(*indices_lists) for val in tup]\<close>.\<close>

definition zip_star :: "'a list list \<Rightarrow> 'a list list" where
  "zip_star ls =
     (case ls of
        [] \<Rightarrow> []
      | l # rest \<Rightarrow>
          map (\<lambda>p. map (\<lambda>l. l ! p) ls) [0 ..< fold (\<lambda>l n. min (length l) n) rest (length l)])"

text \<open>
  Lines 432--437, the loop \<^verbatim>\<open>for t in range(n_forward)\<close>; \<open>stride\<close> is the local
  variable \<open>step_size\<close> of the function.
\<close>

fun forward_steps ::
  "resnet \<Rightarrow> string \<Rightarrow> nat \<Rightarrow> nat \<Rightarrow> int \<Rightarrow> int list \<Rightarrow> nat list \<Rightarrow>
   tensor3 \<times> tensor2 \<times> int list list \<Rightarrow> error + (tensor3 \<times> tensor2 \<times> int list list)" where
  "forward_steps m type_model n_test nd stride indices [] st = Inr st"
| "forward_steps m type_model n_test nd stride indices (t # ts) (preds, y_prev, indices_lists) =
     ebind (forward m y_prev type_model) (\<lambda>y_next.
     let shifted_indices = map (\<lambda>x. x + (int t + 1) * stride) indices;
         indices_lists = indices_lists @ [shifted_indices]
     in
     ebind (reshape_steps y_next n_test nd) (\<lambda>v.
     ebind (set_steps preds shifted_indices v) (\<lambda>preds.
     forward_steps m type_model n_test nd stride indices ts (preds, y_next, indices_lists))))"

text \<open>
  Lines 426--439, the loop \<^verbatim>\<open>for i in [0,1]\<close>. The state is \<open>preds\<close>, \<open>indices\<close>,
  \<open>total_step_sizes\<close> and the \<open>step_size\<close> last assigned.
\<close>

definition type_models :: "string list" where
  "type_models = [''large'', ''small'']"

fun scale_passes ::
  "resnet \<Rightarrow> nat \<Rightarrow> nat \<Rightarrow> int list \<Rightarrow> int list \<Rightarrow>
   tensor3 \<times> int list \<times> int \<times> int option \<Rightarrow> error + (tensor3 \<times> int list \<times> int \<times> int option)" where
  "scale_passes m n_test nd step_sizes [] st = Inr st"
| "scale_passes m n_test nd step_sizes (i # is) (preds, indices, total_step_sizes, last_step_size) =
     ebind (py_index step_sizes i) (\<lambda>step_size.
     ebind (py_index type_models i) (\<lambda>type_model.
     ebind (int_of_quotient total_step_sizes step_size) (\<lambda>n_forward.
     ebind (get_steps preds indices) (\<lambda>g.
     ebind (reshape_rows g nd) (\<lambda>y_prev.
     ebind (forward_steps m type_model n_test nd step_size indices [0 ..< nat n_forward]
              (preds, y_prev, [indices])) (\<lambda>(preds, y_prev, indices_lists).
     scale_passes m n_test nd step_sizes is
       (preds, concat (zip_star indices_lists), step_size - 1, Some step_size)))))))"

text \<open>
  Lines 444--450, \<^verbatim>\<open>while last_idx < n_steps\<close>. The first statement of the body subscripts
  the integer \<open>step_size\<close>, which raises \<open>TypeError\<close>; the statement after the next names
  \<^verbatim>\<open>mself\<close>, which is not defined. So the body never completes, and the loop either is
  skipped or raises in its first pass.
\<close>

definition subscript_int :: "int \<Rightarrow> int \<Rightarrow> error + int" where
  "subscript_int n i = Inl TypeError"

definition simulate_tails :: "int \<Rightarrow> int \<Rightarrow> int \<Rightarrow> error + unit" where
  "simulate_tails n_steps stride last_idx =
     (if last_idx < n_steps
      then ebind (subscript_int stride (- 1)) (\<lambda>inc. Inl NameError)
      else Inr ())"

text \<open>The kinds \<^verbatim>\<open>scipy.interpolate.interp1d\<close> accepts; any other raises.\<close>

definition interp1d_kinds :: "string list" where
  "interp1d_kinds =
     [''linear'', ''nearest'', ''nearest-up'', ''zero'', ''slinear'', ''quadratic'', ''cubic'',
      ''previous'', ''next'']"

definition check_kind :: "string \<Rightarrow> error + unit" where
  "check_kind kind = (if kind \<in> set interp1d_kinds then Inr () else Inl NotImplementedError)"

text \<open>
  The whole function. \<open>interp\<close> stands for the interpolation itself, which runs only
  after the kind is accepted. \<open>models\<close> is read for \<^verbatim>\<open>models[0].step_size\<close> only; the
  steps are taken with the blocks of \<open>self\<close>.
\<close>

definition vectorized_multi_scale_forecast ::
  "(int list \<Rightarrow> tensor3 \<Rightarrow> int list \<Rightarrow> error + tensor3) \<Rightarrow>
   resnet \<Rightarrow> tensor2 \<Rightarrow> int \<Rightarrow> resnet list \<Rightarrow> int list \<Rightarrow> error + tensor3" where
  "vectorized_multi_scale_forecast interp m x_init n_steps models step_sizes =
     (let n_test = nrows x_init; nd = ncols x_init in
      ebind (py_index models 0) (\<lambda>model0.
      let extended_n_steps = n_steps + step_size model0 in
      ebind (zeros n_test (extended_n_steps + 1) nd) (\<lambda>preds.
      ebind (set_step preds 0 x_init) (\<lambda>preds.
      ebind (scale_passes m n_test nd step_sizes [0, 1] (preds, [0], n_steps, None))
        (\<lambda>(preds, indices, total_step_sizes, last_step_size).
      ebind (py_index indices (- 1)) (\<lambda>last_idx.
      ebind (get_step preds last_idx) (\<lambda>y_prev.
      ebind (simulate_tails n_steps (the last_step_size) last_idx) (\<lambda>_.
      let sample_steps = map int [1 ..< nat (n_steps + 1)] in
      ebind (get_steps preds indices) (\<lambda>valid_preds.
      ebind (check_kind ''lin/ear'') (\<lambda>_.
      interp indices valid_preds sample_steps))))))))))"

section \<open>Auxiliary facts\<close>

lemma ebind_Inr [simp]: "ebind (Inr a) f = f a"
  by (simp add: ebind_def)

lemma ebind_Inl [simp]: "ebind (Inl e) f = Inl e"
  by (simp add: ebind_def)

lemma ebind_eq_Inr: "ebind r f = Inr v \<longleftrightarrow> (\<exists>a. r = Inr a \<and> f a = Inr v)"
  by (cases r) simp_all

lemma chain_append: "chain a (xs @ ys) c \<longleftrightarrow> (\<exists>k. chain a xs k \<and> chain k ys c)"
  by (induction xs arbitrary: a) auto

lemma shape_hidden_step [simp]:
  "nrows (hidden_step act x L) = nrows x" "ncols (hidden_step act x L) = out_features L"
  by (simp_all add: hidden_step_def apply_activation_def affine_def)

lemma shape_foldl_hidden:
  "chain (ncols x) Ls c \<Longrightarrow>
   nrows (foldl (hidden_step act) x Ls) = nrows x \<and> ncols (foldl (hidden_step act) x Ls) = c"
  by (induction Ls arbitrary: x) auto

lemma wf2_affine: "wf2 x \<Longrightarrow> wf_linear L \<Longrightarrow> wf2 (affine L x)"
  by (simp add: wf2_def wf_linear_def affine_def list_all_iff)

lemma wf2_hidden_step: "wf2 x \<Longrightarrow> wf_linear L \<Longrightarrow> wf2 (hidden_step act x L)"
  using wf2_affine [of x L]
  by (simp add: hidden_step_def apply_activation_def wf2_def list_all_iff affine_def)

lemma wf2_foldl_hidden:
  "wf2 x \<Longrightarrow> list_all wf_linear Ls \<Longrightarrow> wf2 (foldl (hidden_step act) x Ls)"
  by (induction Ls arbitrary: x) (auto simp: wf2_hidden_step)

lemma hidden_layers_value:
  "k + j \<le> length (linears b) \<Longrightarrow> chain (ncols x) (take j (drop k (linears b))) c \<Longrightarrow>
   hidden_layers b [k ..< k + j] x =
     Inr (foldl (hidden_step (activation b)) x (take j (drop k (linears b))))"
proof (induction j arbitrary: k x)
  case 0
  then show ?case by simp
next
  case (Suc j)
  from Suc.prems have k: "k < length (linears b)" by simp
  have upt: "[k ..< k + Suc j] = k # [Suc k ..< Suc k + j]"
    by (simp add: upt_conv_Cons)
  have tk: "take (Suc j) (drop k (linears b)) = linears b ! k # take j (drop (Suc k) (linears b))"
    using k by (simp add: Cons_nth_drop_Suc [symmetric])
  from Suc.prems(2) have inf: "in_features (linears b ! k) = ncols x"
    and ch: "chain (out_features (linears b ! k)) (take j (drop (Suc k) (linears b))) c"
    by (simp_all add: tk)
  have gl: "get_linear b (int k) = Inr (linears b ! k)"
    using k by (simp add: get_linear_def)
  have lf: "linear_forward (linears b ! k) x = Inr (affine (linears b ! k) x)"
    using inf by (simp add: linear_forward_def)
  have "hidden_layers b [Suc k ..< Suc k + j] (hidden_step (activation b) x (linears b ! k)) =
     Inr (foldl (hidden_step (activation b)) (hidden_step (activation b) x (linears b ! k))
       (take j (drop (Suc k) (linears b))))"
    using Suc.prems(1) ch by (intro Suc.IH) simp_all
  moreover have "hidden_layers b (k # [Suc k ..< Suc k + j]) x =
     hidden_layers b [Suc k ..< Suc k + j] (hidden_step (activation b) x (linears b ! k))"
    by (simp only: hidden_layers.simps gl lf ebind_Inr hidden_step_def)
  ultimately show ?case
    unfolding upt tk by (simp only: foldl_Cons)
qed

lemma nnblock_forward_value:
  assumes "wf_block d b" "ncols x = d"
  shows "nnblock_forward b x = Inr (residual_block b x)"
proof -
  let ?Ls = "linears b"
  from assms have ne: "?Ls \<noteq> []" and ch: "chain (ncols x) ?Ls d"
    by (simp_all add: wf_block_def)
  have split: "?Ls = butlast ?Ls @ [last ?Ls]" using ne by simp
  from ch obtain k where k1: "chain (ncols x) (butlast ?Ls) k" and k2: "chain k [last ?Ls] d"
    using chain_append [of "ncols x" "butlast ?Ls" "[last ?Ls]" d] split by auto
  have n: "nat (n_layers b - 1) = length ?Ls - 1"
    by (simp add: n_layers_def)
  have hid: "hidden_layers b [0 ..< length ?Ls - 1] x =
     Inr (foldl (hidden_step (activation b)) x (butlast ?Ls))"
    using hidden_layers_value [of 0 "length ?Ls - 1" b x k] k1
    by (simp add: butlast_conv_take)
  have gl: "get_linear b (n_layers b - 1) = Inr (last ?Ls)"
    using ne by (simp add: get_linear_def n_layers_def last_conv_nth nat_diff_distrib')
  have nc: "ncols (foldl (hidden_step (activation b)) x (butlast ?Ls)) = in_features (last ?Ls)"
    using shape_foldl_hidden [OF k1] k2 by simp
  show ?thesis
    using hid by (simp add: nnblock_forward_def n gl linear_forward_def nc residual_block_def)
qed

lemma shape_residual_block:
  assumes "wf_block d b" "ncols x = d"
  shows "nrows (residual_block b x) = nrows x" "ncols (residual_block b x) = d"
proof -
  let ?Ls = "linears b"
  from assms have ne: "?Ls \<noteq> []" and ch: "chain (ncols x) ?Ls d"
    by (simp_all add: wf_block_def)
  have split: "?Ls = butlast ?Ls @ [last ?Ls]" using ne by simp
  from ch obtain k where k1: "chain (ncols x) (butlast ?Ls) k" and k2: "chain k [last ?Ls] d"
    using chain_append [of "ncols x" "butlast ?Ls" "[last ?Ls]" d] split by auto
  show "nrows (residual_block b x) = nrows x"
    using shape_foldl_hidden [OF k1] by (simp add: residual_block_def affine_def)
  show "ncols (residual_block b x) = d"
    using k2 by (simp add: residual_block_def affine_def)
qed

lemma wf2_residual_block:
  assumes "wf_block d b" "wf2 x"
  shows "wf2 (residual_block b x)"
proof -
  from assms(1) have ne: "linears b \<noteq> []" and all: "list_all wf_linear (linears b)"
    by (simp_all add: wf_block_def)
  have "list_all wf_linear (butlast (linears b))"
    using all by (auto simp: list_all_iff dest: in_set_butlastD)
  moreover have "wf_linear (last (linears b))"
    using all ne by (simp add: list_all_iff)
  ultimately show ?thesis
    unfolding residual_block_def using assms(2)
    by (intro wf2_affine wf2_foldl_hidden)
qed

lemma shape_pointwise [simp]:
  "nrows (pointwise f x y) = nrows x" "ncols (pointwise f x y) = ncols x"
  by (simp_all add: pointwise_def)

lemma wf2_pointwise:
  "wf2 x \<Longrightarrow> wf2 y \<Longrightarrow> nrows y = nrows x \<Longrightarrow> ncols y = ncols x \<Longrightarrow> wf2 (pointwise f x y)"
  by (auto simp: wf2_def pointwise_def list_all_iff elim!: in_set_zipE)

lemma expand_same: "nrows x = r \<Longrightarrow> ncols x = c \<Longrightarrow> expand r c x = x"
  by (simp add: expand_def)

lemma broadcast_op_same:
  "nrows y = nrows x \<Longrightarrow> ncols y = ncols x \<Longrightarrow> broadcast_op f x y = Inr (pointwise f x y)"
  by (simp add: broadcast_op_def bdim_def expand_same)

lemma block_of_wf:
  "wf_resnet m \<Longrightarrow> which = ''large'' \<or> which = ''small'' \<Longrightarrow> wf_block (n_dim m) (block_of m which)"
  by (auto simp: wf_resnet_def block_of_def)

lemma get_module_value:
  "which = ''large'' \<or> which = ''small'' \<Longrightarrow> get_module m which = Inr (block_of m which)"
  by (auto simp: get_module_def block_of_def)

lemma forward_value:
  assumes "wf_resnet m" "ncols x = n_dim m" "which = ''large'' \<or> which = ''small''"
  shows "forward m x which = Inr (step m which x)"
proof -
  have wb: "wf_block (n_dim m) (block_of m which)"
    using assms(1,3) by (rule block_of_wf)
  have "tensor_add x (residual_block (block_of m which) x) =
      Inr (pointwise (\<lambda>a b. a + b) x (residual_block (block_of m which) x))"
    unfolding tensor_add_def
    by (rule broadcast_op_same) (simp_all add: shape_residual_block [OF wb assms(2)] assms(2))
  then show ?thesis
    by (simp add: forward_def get_module_value [OF assms(3)]
        nnblock_forward_value [OF wb assms(2)] step_def)
qed

lemma shape_step [simp]: "nrows (step m which x) = nrows x" "ncols (step m which x) = ncols x"
  by (simp_all add: step_def)

lemma wf2_step:
  assumes "wf_resnet m" "wf2 x" "ncols x = n_dim m" "which = ''large'' \<or> which = ''small''"
  shows "wf2 (step m which x)"
proof -
  have wb: "wf_block (n_dim m) (block_of m which)"
    using assms(1,4) by (rule block_of_wf)
  show ?thesis
    unfolding step_def
    by (intro wf2_pointwise assms(2) wf2_residual_block [OF wb])
       (simp_all add: shape_residual_block [OF wb assms(3)] assms(3))
qed

lemma shape_column [simp]: "nrows (column ys h) = dim0 ys" "ncols (column ys h) = dim2 ys"
  by (simp_all add: column_def)

lemma shape_squared_error [simp]:
  "nrows (squared_error y t) = nrows y" "ncols (squared_error y t) = ncols y"
  by (simp_all add: squared_error_def)

lemma criterion_value:
  "nrows t = nrows y \<Longrightarrow> ncols t = ncols y \<Longrightarrow> criterion y t = Inr (squared_error y t)"
  by (simp add: criterion_def squared_error_def broadcast_op_same)

lemma tensor_iadd_value:
  "nrows y = nrows x \<Longrightarrow> ncols y = ncols x \<Longrightarrow>
   tensor_iadd x y = Inr (pointwise (\<lambda>a b. a + b) x y)"
  by (simp add: tensor_iadd_def broadcast_op_same)

lemma add_loss_value:
  "h < dim1 ys \<Longrightarrow> nrows y = dim0 ys \<Longrightarrow> ncols y = dim2 ys \<Longrightarrow>
   nrows loss = dim0 ys \<Longrightarrow> ncols loss = dim2 ys \<Longrightarrow>
   add_loss loss y ys h = Inr (pointwise (\<lambda>a b. a + b) loss (squared_error y (column ys h)))"
  by (simp add: add_loss_def select_step_def criterion_value tensor_iadd_value)

lemma forward_small:
  "wf_resnet m \<Longrightarrow> ncols x = n_dim m \<Longrightarrow> forward m x ''small'' = Inr (step m ''small'' x)"
  by (rule forward_value) simp_all

lemma forward_large:
  "wf_resnet m \<Longrightarrow> ncols x = n_dim m \<Longrightarrow> forward m x ''large'' = Inr (step m ''large'' x)"
  by (rule forward_value) simp_all

lemma loss_terms_4_value:
  assumes "wf_resnet m" "ncols x = n_dim m" "dim0 ys = nrows x" "dim2 ys = n_dim m" "0 < dim1 ys"
  shows "loss_terms_4 m x ys = Inr (branch_error m x ys ([''small''], 0))"
  using assms
  by (simp add: loss_terms_4_def forward_small select_step_def criterion_value
      branch_error_def compose_def)

lemma shape_branch_error [simp]:
  "nrows (branch_error m x ys br) = nrows x" "ncols (branch_error m x ys br) = ncols x"
proof -
  have "nrows (foldl (\<lambda>y which. step m which y) x seq) = nrows x \<and>
        ncols (foldl (\<lambda>y which. step m which y) x seq) = ncols x" for seq
    by (induction seq arbitrary: x) simp_all
  then show "nrows (branch_error m x ys br) = nrows x" "ncols (branch_error m x ys br) = ncols x"
    by (simp_all add: branch_error_def compose_def)
qed

lemma loss_terms_8_value:
  assumes "wf_resnet m" "ncols x = n_dim m" "dim0 ys = nrows x" "dim2 ys = n_dim m" "1 < dim1 ys"
    "nrows loss = nrows x" "ncols loss = n_dim m"
  shows "loss_terms_8 m x ys loss = Inr (foldl (pointwise (\<lambda>a b. a + b)) loss
     (map (branch_error m x ys) [([''small'', ''small''], 1), ([''large''], 1)]))"
  using assms
  by (simp add: loss_terms_8_def forward_small forward_large add_loss_value
      branch_error_def compose_def)

lemma loss_terms_12_value:
  assumes "wf_resnet m" "ncols x = n_dim m" "dim0 ys = nrows x" "dim2 ys = n_dim m" "2 < dim1 ys"
    "nrows loss = nrows x" "ncols loss = n_dim m"
  shows "loss_terms_12 m x ys loss = Inr (foldl (pointwise (\<lambda>a b. a + b)) loss
     (map (branch_error m x ys) [([''small'', ''large''], 2)]))"
  using assms
  by (simp add: loss_terms_12_def forward_small forward_large add_loss_value
      branch_error_def compose_def)

lemma loss_terms_16_value:
  assumes "wf_resnet m" "ncols x = n_dim m" "dim0 ys = nrows x" "dim2 ys = n_dim m" "3 < dim1 ys"
    "nrows loss = nrows x" "ncols loss = n_dim m"
  shows "loss_terms_16 m x ys loss = Inr (foldl (pointwise (\<lambda>a b. a + b)) loss
     (map (branch_error m x ys)
       [([''large'', ''large''], 3),
        ([''small'', ''small'', ''small'', ''small''], 3),
        ([''small'', ''small'', ''large''], 3),
        ([''large'', ''small'', ''small''], 3)]))"
  using assms
  by (simp add: loss_terms_16_def forward_small forward_large add_loss_value
      branch_error_def compose_def)

lemma loss_terms_20a_value:
  assumes "wf_resnet m" "ncols x = n_dim m" "dim0 ys = nrows x" "dim2 ys = n_dim m" "4 < dim1 ys"
    "nrows loss = nrows x" "ncols loss = n_dim m"
  shows "loss_terms_20a m x ys loss = Inr (foldl (pointwise (\<lambda>a b. a + b)) loss
     (map (branch_error m x ys)
       [([''large'', ''large'', ''small''], 4),
        ([''small'', ''large'', ''large''], 4),
        ([''large'', ''small'', ''large''], 4)]))"
  using assms
  by (simp add: loss_terms_20a_def forward_small forward_large add_loss_value
      branch_error_def compose_def)

lemma loss_terms_20b_value:
  assumes "wf_resnet m" "ncols x = n_dim m" "dim0 ys = nrows x" "dim2 ys = n_dim m" "4 < dim1 ys"
    "nrows loss = nrows x" "ncols loss = n_dim m"
  shows "loss_terms_20b m x ys loss = Inr (foldl (pointwise (\<lambda>a b. a + b)) loss
     (map (branch_error m x ys)
       [([''small'', ''small'', ''small'', ''small'', ''small''], 4),
        ([''large'', ''small'', ''small'', ''small''], 4),
        ([''small'', ''large'', ''small'', ''small''], 4),
        ([''small'', ''small'', ''large'', ''small''], 4),
        ([''small'', ''small'', ''small'', ''large''], 4)]))"
  using assms
  by (simp add: loss_terms_20b_def forward_small forward_large add_loss_value
      branch_error_def compose_def)

lemma shape_foldl_pointwise [simp]:
  "nrows (foldl (pointwise f) a ts) = nrows a" "ncols (foldl (pointwise f) a ts) = ncols a"
  by (induction ts arbitrary: a) simp_all


lemma calculate_loss_value:
  assumes "wf_resnet m" "ncols x = n_dim m" "dim0 ys = nrows x" "dim2 ys = n_dim m" "5 \<le> dim1 ys"
  shows "calculate_loss m x ys = Inr (branch_loss m x ys)"
proof -
  have h: "0 < dim1 ys" "1 < dim1 ys" "2 < dim1 ys" "3 < dim1 ys" "4 < dim1 ys"
    using assms(5) by simp_all
  note a = assms(1-4)
  show ?thesis
    by (simp add: calculate_loss_def assms(4)
        loss_terms_4_value [OF a h(1)] loss_terms_8_value [OF a h(2)]
        loss_terms_12_value [OF a h(3)] loss_terms_16_value [OF a h(4)]
        loss_terms_20a_value [OF a h(5)] loss_terms_20b_value [OF a h(5)]
        assms(2) branch_loss_def sum_tensors_def loss_branches_def)
qed

lemma wf_demo_net: "wf_resnet demo_net"
  by (simp add: wf_resnet_def wf_block_def wf_linear_def demo_net_def unit_layer_def)

lemma wf2_demo_x: "wf2 demo_x"
  by (simp add: wf2_def demo_x_def)

lemma demo_shapes:
  "ncols demo_x = n_dim demo_net" "dim0 demo_ys = nrows demo_x" "dim2 demo_ys = n_dim demo_net"
  "dim0 demo_ys4 = nrows demo_x" "dim2 demo_ys4 = n_dim demo_net"
  by (simp_all add: demo_net_def demo_x_def demo_ys_def demo_ys4_def)

lemma branch_loss_demo: "branch_loss demo_net demo_x demo_ys = Num 818"
  by code_simp

lemma add_loss_Inr: "add_loss loss y ys h = Inr v \<Longrightarrow> h < dim1 ys"
  by (auto simp: add_loss_def ebind_eq_Inr select_step_def split: if_splits)

lemma add_loss_IndexError: "\<not> h < dim1 ys \<Longrightarrow> add_loss loss y ys h = Inl IndexError"
  by (simp add: add_loss_def select_step_def)

lemma loss_terms_20b_Inr: "loss_terms_20b m x ys loss = Inr v \<Longrightarrow> 4 < dim1 ys"
  by (auto simp: loss_terms_20b_def ebind_eq_Inr dest: add_loss_Inr)

lemma calculate_loss_Inr: "calculate_loss m x ys = Inr v \<Longrightarrow> 4 < dim1 ys"
  by (auto simp: calculate_loss_def ebind_eq_Inr split: if_splits dest: loss_terms_20b_Inr)

lemma calculate_loss_IndexError:
  assumes "wf_resnet m" "ncols x = n_dim m" "dim0 ys = nrows x" "dim2 ys = n_dim m" "dim1 ys < 5"
  shows "calculate_loss m x ys = Inl IndexError"
proof -
  note a = assms(1-4)
  consider "dim1 ys = 0" | "dim1 ys = 1" | "dim1 ys = 2" | "dim1 ys = 3" | "dim1 ys = 4"
    using assms(5) by linarith
  then show ?thesis
  proof cases
    case 1
    then show ?thesis
      using a by (simp add: calculate_loss_def loss_terms_4_def forward_small select_step_def)
  next
    case 2
    then have h: "0 < dim1 ys" by simp
    show ?thesis
      using a 2
      by (simp add: calculate_loss_def loss_terms_4_value [OF a h] loss_terms_8_def
          forward_small add_loss_IndexError)
  next
    case 3
    then have h: "0 < dim1 ys" "1 < dim1 ys" by simp_all
    show ?thesis
      using a 3
      by (simp add: calculate_loss_def loss_terms_4_value [OF a h(1)]
          loss_terms_8_value [OF a h(2)] loss_terms_12_def
          forward_small forward_large add_loss_IndexError)
  next
    case 4
    then have h: "0 < dim1 ys" "1 < dim1 ys" "2 < dim1 ys" by simp_all
    show ?thesis
      using a 4
      by (simp add: calculate_loss_def loss_terms_4_value [OF a h(1)]
          loss_terms_8_value [OF a h(2)] loss_terms_12_value [OF a h(3)] loss_terms_16_def
          forward_large add_loss_IndexError)
  next
    case 5
    then have h: "0 < dim1 ys" "1 < dim1 ys" "2 < dim1 ys" "3 < dim1 ys" by simp_all
    show ?thesis
      using a 5
      by (simp add: calculate_loss_def loss_terms_4_value [OF a h(1)]
          loss_terms_8_value [OF a h(2)] loss_terms_12_value [OF a h(3)]
          loss_terms_16_value [OF a h(4)] loss_terms_20a_def
          forward_small forward_large add_loss_IndexError)
  qed
qed


lemma train_iteration_break:
  "train_iteration randperm opt_step d batch_size model_path s = Inr (s', brk) \<Longrightarrow>
   brk = (best_loss s \<le> threshold)"
  by (auto simp: train_iteration_def ebind_eq_Inr Let_def split: if_splits prod.splits)

lemma log_and_save_quiet:
  "epoch s mod 1000 \<noteq> 0 \<Longrightarrow> log_and_save model_path vl s = s"
  by (simp add: log_and_save_def)

lemma log_and_save_fields [simp]:
  "epoch (log_and_save model_path vl s) = epoch s"
  "opt_steps (log_and_save model_path vl s) = opt_steps s"
  "net (log_and_save model_path vl s) = net s"
  "optim (log_and_save model_path vl s) = optim s"
  "val_loss (log_and_save model_path vl s) = val_loss s"
  by (simp_all add: log_and_save_def Let_def split: scalar.splits)

lemma train_iteration_best_loss:
  "train_iteration randperm opt_step d batch_size model_path s = Inr (s', brk) \<Longrightarrow>
   Suc (epoch s) mod 1000 \<noteq> 0 \<Longrightarrow> best_loss s' = best_loss s \<and> saved s' = saved s"
  by (auto simp: train_iteration_def ebind_eq_Inr Let_def log_and_save_quiet
      split: if_splits prod.splits)

lemma train_iteration_converged:
  "train_iteration randperm opt_step d batch_size model_path s = Inr (s', True) \<Longrightarrow>
   opt_steps s' = opt_steps s \<and> net s' = net s \<and> optim s' = optim s \<and> saved s' = saved s \<and>
   best_loss s' = best_loss s"
  by (auto simp: train_iteration_def ebind_eq_Inr Let_def split: if_splits prod.splits)

lemma train_iteration_stepped:
  "train_iteration randperm opt_step d batch_size model_path s = Inr (s', False) \<Longrightarrow>
   opt_steps s' = opt_steps s + 1"
  by (auto simp: train_iteration_def ebind_eq_Inr Let_def split: if_splits prod.splits)

lemma train_loop_not_converged:
  "max_epoch \<le> 1000 \<Longrightarrow> (int (epoch s) < max_epoch \<longrightarrow> \<not> best_loss s \<le> threshold) \<Longrightarrow>
   train_loop randperm opt_step d max_epoch batch_size model_path s \<noteq> Inr (s', Converged)"
proof (induction randperm opt_step d max_epoch batch_size model_path s
    rule: train_loop.induct)
  case (1 randperm opt_step d max_epoch batch_size model_path s)
  show ?case
  proof (cases "int (epoch s) < max_epoch")
    case False
    then show ?thesis by (simp add: train_loop.simps)
  next
    case True
    with "1.prems" have bl: "\<not> best_loss s \<le> threshold" by simp
    show ?thesis
    proof (cases "train_iteration randperm opt_step d batch_size model_path s")
      case (Inl e)
      then show ?thesis using True by (simp add: train_loop.simps [of _ _ _ _ _ _ s])
    next
      case (Inr r)
      obtain s1 brk where r: "r = (s1, brk)" by (cases r)
      from Inr r train_iteration_break [of randperm opt_step d batch_size model_path s s1 brk] bl
      have nb: "\<not> brk" by simp
      have e1: "epoch s1 = epoch s + 1"
        using Inr r by (auto dest: train_iteration_epoch)
      have inv: "int (epoch s1) < max_epoch \<longrightarrow> \<not> best_loss s1 \<le> threshold"
      proof
        assume lt: "int (epoch s1) < max_epoch"
        with "1.prems"(1) e1 have "Suc (epoch s) mod 1000 \<noteq> 0" by simp
        with Inr r train_iteration_best_loss [of randperm opt_step d batch_size model_path s s1 brk]
        have "best_loss s1 = best_loss s" by simp
        with bl show "\<not> best_loss s1 \<le> threshold" by simp
      qed
      have "train_loop randperm opt_step d max_epoch batch_size model_path s1 \<noteq> Inr (s', Converged)"
        using "1.IH" [OF True Inr r [symmetric] _ "1.prems"(1) inv] nb by simp
      then show ?thesis
        using True Inr r nb by (simp add: train_loop.simps [of _ _ _ _ _ _ s])
    qed
  qed
qed


lemma index_rows_value:
  "list_all (\<lambda>i. i < nrows x) idxs \<Longrightarrow>
   index_rows x idxs = Inr \<lparr>nrows = length idxs, ncols = ncols x, rws = map (\<lambda>i. rws x ! i) idxs\<rparr>"
  by (simp add: index_rows_def)

lemma index_blocks_value:
  "list_all (\<lambda>i. i < dim0 ys) idxs \<Longrightarrow>
   index_blocks ys idxs = Inr \<lparr>dim0 = length idxs, dim1 = dim1 ys, dim2 = dim2 ys,
      blocks = map (\<lambda>i. blocks ys ! i) idxs\<rparr>"
  by (simp add: index_blocks_def)

lemma randperm_take_bound:
  "randperm_ok randperm \<Longrightarrow> list_all (\<lambda>i. i < n) (take k (randperm e n))"
  by (auto simp: randperm_ok_def list_all_iff dest!: in_set_takeD)

lemma train_iteration_runs:
  assumes env: "dataset_ok nd d" "randperm_ok randperm" "optimizer_keeps P nd opt_step"
    and P: "P (net s)" and bl: "\<not> best_loss s \<le> threshold"
  shows "\<exists>s'. train_iteration randperm opt_step d batch_size model_path s = Inr (s', False) \<and>
    P (net s') \<and>
    val_loss s' = Some (branch_loss (net s) (val_x d) (val_ys d))"
proof -
  define idxs where "idxs = take batch_size (randperm (Suc (epoch s)) (n_train d))"
  define bx where "bx = \<lparr>nrows = length idxs, ncols = ncols (train_x d),
      rws = map (\<lambda>i. rws (train_x d) ! i) idxs\<rparr>"
  define bys where "bys = \<lparr>dim0 = length idxs, dim1 = dim1 (train_ys d),
      dim2 = dim2 (train_ys d), blocks = map (\<lambda>i. blocks (train_ys d) ! i) idxs\<rparr>"
  from env(3) P have wf: "wf_resnet (net s)" and nd: "n_dim (net s) = nd"
    by (simp_all add: optimizer_keeps_def)
  have b1: "list_all (\<lambda>i. i < nrows (train_x d)) idxs"
    unfolding idxs_def using randperm_take_bound [OF env(2)] env(1) by (simp add: dataset_ok_def)
  have b2: "list_all (\<lambda>i. i < dim0 (train_ys d)) idxs"
    using b1 env(1) by (simp add: dataset_ok_def)
  have ix: "index_rows (train_x d) idxs = Inr bx"
    unfolding bx_def using b1 by (rule index_rows_value)
  have iy: "index_blocks (train_ys d) idxs = Inr bys"
    unfolding bys_def using b2 by (rule index_blocks_value)
  have tl: "calculate_loss (net s) bx bys = Inr (branch_loss (net s) bx bys)"
    using env(1) wf nd by (intro calculate_loss_value) (simp_all add: dataset_ok_def bx_def bys_def)
  have vl: "calculate_loss (net s) (val_x d) (val_ys d) =
      Inr (branch_loss (net s) (val_x d) (val_ys d))"
    using env(1) wf nd by (intro calculate_loss_value) (simp_all add: dataset_ok_def)
  have keep: "P (snd (opt_step (optim s) (net s) bx bys))"
    using env(3) P by (simp add: optimizer_keeps_def)
  show ?thesis
    using bl keep
    by (simp add: train_iteration_def Let_def idxs_def [symmetric] ix iy tl vl case_prod_beta)
qed


lemma train_loop_exhausts:
  assumes env: "dataset_ok nd d" "randperm_ok randperm" "optimizer_keeps P nd opt_step"
  shows "max_epoch \<le> 1000 \<Longrightarrow> P (net s) \<Longrightarrow>
    (int (epoch s) < max_epoch \<longrightarrow> \<not> best_loss s \<le> threshold) \<Longrightarrow>
    \<exists>s'. train_loop randperm opt_step d max_epoch batch_size model_path s = Inr (s', Exhausted) \<and>
      int (epoch s') = max (int (epoch s)) max_epoch \<and>
      opt_steps s' = opt_steps s + (epoch s' - epoch s) \<and> P (net s') \<and>
      (max_epoch < 1000 \<longrightarrow> saved s' = saved s \<and> best_loss s' = best_loss s) \<and>
      (int (epoch s) < max_epoch \<longrightarrow>
         (\<exists>m0. P m0 \<and> val_loss s' = Some (branch_loss m0 (val_x d) (val_ys d)))) \<and>
      (\<not> int (epoch s) < max_epoch \<longrightarrow> s' = s)"
  using env
proof (induction randperm opt_step d max_epoch batch_size model_path s
    rule: train_loop.induct)
  case (1 randperm opt_step d max_epoch batch_size model_path s)
  note env = "1.prems"(4-6)
  show ?case
  proof (cases "int (epoch s) < max_epoch")
    case False
    then show ?thesis
      using "1.prems"(2) by (simp add: train_loop.simps [of _ _ _ _ _ _ s])
  next
    case True
    with "1.prems"(3) have bl: "\<not> best_loss s \<le> threshold" by simp
    from train_iteration_runs [OF env "1.prems"(2) bl, of batch_size model_path]
    obtain s1 where it: "train_iteration randperm opt_step d batch_size model_path s = Inr (s1, False)"
      and P1: "P (net s1)"
      and v1: "val_loss s1 = Some (branch_loss (net s) (val_x d) (val_ys d))"
      by blast
    have e1: "epoch s1 = epoch s + 1" using it by (rule train_iteration_epoch)
    have o1: "opt_steps s1 = opt_steps s + 1" using it by (rule train_iteration_stepped)
    have quiet: "best_loss s1 = best_loss s \<and> saved s1 = saved s" if "int (epoch s) + 1 < 1000"
    proof -
      from that have "Suc (epoch s) mod 1000 \<noteq> 0" by simp
      with it show ?thesis by (rule train_iteration_best_loss)
    qed
    have inv: "int (epoch s1) < max_epoch \<longrightarrow> \<not> best_loss s1 \<le> threshold"
      using quiet "1.prems"(1) e1 bl by auto
    have nf: "\<not> False" by simp
    from "1.IH" [OF True it refl nf "1.prems"(1) P1 inv env]
    obtain s' where ex: "train_loop randperm opt_step d max_epoch batch_size model_path s1 =
        Inr (s', Exhausted) \<and>
      int (epoch s') = max (int (epoch s1)) max_epoch \<and>
      opt_steps s' = opt_steps s1 + (epoch s' - epoch s1) \<and> P (net s') \<and>
      (max_epoch < 1000 \<longrightarrow> saved s' = saved s1 \<and> best_loss s' = best_loss s1) \<and>
      (int (epoch s1) < max_epoch \<longrightarrow>
         (\<exists>m0. P m0 \<and> val_loss s' = Some (branch_loss m0 (val_x d) (val_ys d)))) \<and>
      (\<not> int (epoch s1) < max_epoch \<longrightarrow> s' = s1)"
      by (rule exE)
    from ex have
      loop: "train_loop randperm opt_step d max_epoch batch_size model_path s1 = Inr (s', Exhausted)"
      and ep: "int (epoch s') = max (int (epoch s1)) max_epoch"
      and os: "opt_steps s' = opt_steps s1 + (epoch s' - epoch s1)"
      and P': "P (net s')"
      and sv: "max_epoch < 1000 \<longrightarrow> saved s' = saved s1 \<and> best_loss s' = best_loss s1"
      and vl: "int (epoch s1) < max_epoch \<longrightarrow>
         (\<exists>m0. P m0 \<and> val_loss s' = Some (branch_loss m0 (val_x d) (val_ys d)))"
      and same: "\<not> int (epoch s1) < max_epoch \<longrightarrow> s' = s1"
      by blast+
    have whole: "train_loop randperm opt_step d max_epoch batch_size model_path s = Inr (s', Exhausted)"
      using True it loop by (simp add: train_loop.simps [of _ _ _ _ _ _ s])
    have ep': "int (epoch s') = max (int (epoch s)) max_epoch"
      using ep e1 True by simp
    have os': "opt_steps s' = opt_steps s + (epoch s' - epoch s)"
      using os o1 e1 ep True by simp
    have sv': "max_epoch < 1000 \<longrightarrow> saved s' = saved s \<and> best_loss s' = best_loss s"
      using sv quiet True by auto
    have vl': "\<exists>m0. P m0 \<and> val_loss s' = Some (branch_loss m0 (val_x d) (val_ys d))"
    proof (cases "int (epoch s1) < max_epoch")
      case True
      with vl show ?thesis by simp
    next
      case False
      with same have "s' = s1" by simp
      with v1 "1.prems"(2) show ?thesis by auto
    qed
    show ?thesis
      using whole ep' os' P' sv' vl' True by simp
  qed
qed




lemma threshold_below_initial: "\<not> initial_best_loss \<le> threshold"
  by (simp add: initial_best_loss_def threshold_def)

lemma check_data_info_ok:
  "n_dim m = ds_n_dim d \<Longrightarrow> dt m = ds_dt d \<Longrightarrow> step_size m = ds_step_size d \<Longrightarrow>
   check_data_info m d = Inr ()"
  by (simp add: check_data_info_def)

lemma initial_state_fields [simp]:
  "epoch (initial_state m opt_init) = 0" "best_loss (initial_state m opt_init) = initial_best_loss"
  "net (initial_state m opt_init) = m" "opt_steps (initial_state m opt_init) = 0"
  "saved (initial_state m opt_init) = []" "val_loss (initial_state m opt_init) = None"
  "optim (initial_state m opt_init) = opt_init"
  by (simp_all add: initial_state_def)

lemma train_net_exhausts:
  assumes env: "dataset_ok nd d" "randperm_ok randperm" "optimizer_keeps P nd opt_step"
    and P: "P m"
    and same: "n_dim m = ds_n_dim d" "dt m = ds_dt d" "step_size m = ds_step_size d"
    and me: "0 < max_epoch" "max_epoch < 1000"
  shows "\<exists>s m0. train_net randperm opt_step opt_init m d max_epoch batch_size model_path =
        Inr (s, Exhausted) \<and>
      int (epoch s) = max_epoch \<and> opt_steps s = epoch s \<and> P (net s) \<and> P m0 \<and>
      val_loss s = Some (branch_loss m0 (val_x d) (val_ys d)) \<and>
      best_loss s = initial_best_loss \<and>
      saved s = (if (\<exists>v. val_loss s = Some (Num v) \<and> v < initial_best_loss) \<and> model_path \<noteq> None
                 then [(epoch s, net s)] else [])"
proof -
  let ?s0 = "initial_state m opt_init :: 'a train_state"
  have le: "max_epoch \<le> 1000" using me by simp
  have P0: "P (net ?s0)" using P by simp
  have inv: "int (epoch ?s0) < max_epoch \<longrightarrow> \<not> best_loss ?s0 \<le> threshold"
    by (simp add: threshold_below_initial)
  from train_loop_exhausts [OF env le P0 inv, of batch_size model_path]
  obtain s' where ex: "train_loop randperm opt_step d max_epoch batch_size model_path ?s0 =
        Inr (s', Exhausted) \<and>
      int (epoch s') = max (int (epoch ?s0)) max_epoch \<and>
      opt_steps s' = opt_steps ?s0 + (epoch s' - epoch ?s0) \<and> P (net s') \<and>
      (max_epoch < 1000 \<longrightarrow> saved s' = saved ?s0 \<and> best_loss s' = best_loss ?s0) \<and>
      (int (epoch ?s0) < max_epoch \<longrightarrow>
         (\<exists>m0. P m0 \<and> val_loss s' = Some (branch_loss m0 (val_x d) (val_ys d)))) \<and>
      (\<not> int (epoch ?s0) < max_epoch \<longrightarrow> s' = ?s0)"
    by (rule exE)
  from ex me have loop: "train_loop randperm opt_step d max_epoch batch_size model_path ?s0 =
        Inr (s', Exhausted)"
    and ep: "int (epoch s') = max_epoch" and os: "opt_steps s' = epoch s'" and P': "P (net s')"
    and sv: "saved s' = []" and bl: "best_loss s' = initial_best_loss"
    by simp_all
  from ex me obtain m0 where m0: "P m0"
    and vl: "val_loss s' = Some (branch_loss m0 (val_x d) (val_ys d))"
    by auto
  define s where "s = (if (\<exists>v. val_loss s' = Some (Num v) \<and> v < initial_best_loss) \<and>
      model_path \<noteq> None then s'\<lparr>saved := [(epoch s', net s')]\<rparr> else s')"
  have se: "save_at_end model_path s' = Inr s"
    by (auto simp: save_at_end_def s_def vl sv bl split: scalar.splits)
  have r1: "train_net randperm opt_step opt_init m d max_epoch batch_size model_path = Inr (s, Exhausted)"
    by (simp add: train_net_def check_data_info_ok [OF same] loop se)
  have fields: "val_loss s = val_loss s'" "epoch s = epoch s'" "net s = net s'"
    "best_loss s = best_loss s'" "opt_steps s = opt_steps s'"
    by (simp_all add: s_def)
  have r2: "int (epoch s) = max_epoch" and r3: "opt_steps s = epoch s" and r4: "P (net s)"
    and r5: "val_loss s = Some (branch_loss m0 (val_x d) (val_ys d))"
    and r6: "best_loss s = initial_best_loss"
    unfolding fields using ep os P' vl bl by simp_all
  have "saved s = (if (\<exists>v. val_loss s' = Some (Num v) \<and> v < initial_best_loss) \<and>
      model_path \<noteq> None then [(epoch s', net s')] else [])"
    using sv by (simp add: s_def)
  then have r7: "saved s = (if (\<exists>v. val_loss s = Some (Num v) \<and> v < initial_best_loss) \<and>
      model_path \<noteq> None then [(epoch s, net s)] else [])"
    unfolding fields .
  show ?thesis
    apply (rule exI [of _ s])
    apply (rule exI [of _ m0])
    using r1 r2 r3 r4 m0 r5 r6 r7 by (intro conjI)
qed


lemma wf_still_net: "wf_resnet (still_net n)"
  by (simp add: wf_resnet_def wf_block_def wf_linear_def still_net_def zero_layer_def list_all_iff)

lemma constant_data_ok: "dataset_ok n (constant_data n_tr n_val n)"
  by (simp add: dataset_ok_def constant_data_def)

lemma first_indices_ok: "randperm_ok first_indices"
  by (simp add: randperm_ok_def first_indices_def)

lemma no_update_keeps: "optimizer_keeps (\<lambda>m. m = still_net n) n no_update"
  by (simp add: optimizer_keeps_def no_update_def wf_still_net) (simp add: still_net_def)

lemma still_net_consistent:
  "n_dim (still_net n) = ds_n_dim (constant_data n_tr n_val n)"
  "dt (still_net n) = ds_dt (constant_data n_tr n_val n)"
  "step_size (still_net n) = ds_step_size (constant_data n_tr n_val n)"
  by (simp_all add: still_net_def constant_data_def)


lemma val_still_3:
  "val_x (constant_data 100 1 3) = \<lparr>nrows = 1, ncols = 3, rws = [[1, 1, 1]]\<rparr>"
  "val_ys (constant_data 100 1 3) = \<lparr>dim0 = 1, dim1 = 5, dim2 = 3,
     blocks = [[[1, 1, 1], [1, 1, 1], [1, 1, 1], [1, 1, 1], [1, 1, 1]]]\<rparr>"
  by (simp_all add: constant_data_def eval_nat_numeral)

lemma val_loss_still_3:
  "branch_loss (still_net 3) (val_x (constant_data 100 1 3)) (val_ys (constant_data 100 1 3)) = Num 0"
  unfolding val_still_3 by code_simp


lemma train_net_reason:
  "train_net randperm opt_step opt_init m d max_epoch batch_size model_path = Inr (s, reason) \<Longrightarrow>
   \<exists>s0. train_loop randperm opt_step d max_epoch batch_size model_path (initial_state m opt_init) =
     Inr (s0, reason)"
  by (auto simp: train_net_def ebind_eq_Inr)


lemma late_iteration:
  "case train_iteration first_indices no_update (constant_data 1 1 1) 1 None late_state of
     Inl e \<Rightarrow> False
   | Inr (s1, brk) \<Rightarrow> brk \<and> epoch s1 = 1001 \<and> val_loss s1 = Some (Num 0)"
  by code_simp

lemma two_epochs:
  "case train_net first_indices no_update () (still_net 1) (constant_data 1 1 1) 2 1 None of
     Inl e \<Rightarrow> False
   | Inr (s, reason) \<Rightarrow> reason = Exhausted \<and> epoch s = 2 \<and> opt_steps s = 2 \<and>
       val_loss s = Some (Num 0) \<and> best_loss s = 100000 \<and> length (saved s) = 0"
  by code_simp


lemma scenario_facts:
  "nrows (train_x (constant_data 100 1 3)) = 100" "dim1 (train_ys (constant_data 100 1 3)) = 5"
  "ds_n_dim (constant_data 100 1 3) = 3" "ds_dt (constant_data 100 1 3) = dt (still_net 3)"
  "ds_step_size (constant_data 100 1 3) = 4" "step_size (still_net 3) = 4"
  by (simp_all add: constant_data_def still_net_def)


lemma check_kind_lin_ear: "check_kind ''lin/ear'' = Inl NotImplementedError"
  by (simp add: check_kind_def interp1d_kinds_def)

lemma forecast_never_returns:
  "vectorized_multi_scale_forecast interp m x_init n_steps models step_sizes \<noteq> Inr v"
  by (auto simp: vectorized_multi_scale_forecast_def Let_def ebind_eq_Inr check_kind_lin_ear)

section \<open>The claims\<close>

text \<open>
  C1. For a batch \<open>x\<close> of shape \<open>batch_size \<times> n_dim\<close> and targets \<open>ys\<close> of shape
  \<open>batch_size \<times> n_steps \<times> n_dim\<close> with at least five horizon columns, \<open>calculate_loss\<close>
  returns the mean of the sum of the squared-error tensors of the sixteen branches of
  \<open>loss_branches\<close>, each compared with its column of \<open>ys\<close>. The composition
  (large, small) is not among them: the code evaluates it and adds nothing for it. The
  result is a scalar.
\<close>

theorem calculate_loss_sums_branches:
  assumes "wf_resnet m" "ncols x = n_dim m" "dim0 ys = nrows x" "dim2 ys = n_dim m" "5 \<le> dim1 ys"
  shows "calculate_loss m x ys = Inr (branch_loss m x ys)"
  using assms by (rule calculate_loss_value)

theorem calculate_loss_sums_branches_witness:
  "wf_resnet demo_net \<and> 5 \<le> dim1 demo_ys \<and>
   calculate_loss demo_net demo_x demo_ys = Inr (Num 818)"
proof -
  have five: "5 \<le> dim1 demo_ys" by (simp add: demo_ys_def)
  from calculate_loss_sums_branches [OF wf_demo_net demo_shapes(1-3) five]
  show ?thesis by (simp add: wf_demo_net five branch_loss_demo)
qed

text \<open>
  C2. For a batch \<open>x\<close> of shape \<open>batch_size \<times> n_dim\<close> and \<open>which\<close> one of \<open>large\<close> and
  \<open>small\<close>, \<open>forward(x, which)\<close> returns \<open>x\<close> plus the residual block of that name applied
  to \<open>x\<close>, where the block applies its affine layers in order with the nonlinearity after
  each of them but the last; the result has the shape of \<open>x\<close>.
\<close>

theorem forward_adds_residual_block:
  assumes "wf_resnet m" "wf2 x" "ncols x = n_dim m" "which = ''large'' \<or> which = ''small''"
  shows "\<exists>y. forward m x which = Inr y \<and>
    y = pointwise (\<lambda>a b. a + b) x (residual_block (block_of m which) x) \<and>
    nrows y = nrows x \<and> ncols y = ncols x \<and> wf2 y"
  using forward_value [OF assms(1,3,4)] wf2_step [OF assms]
  by (simp add: step_def)

theorem forward_adds_residual_block_witness:
  "wf_resnet demo_net \<and> wf2 demo_x \<and>
   forward demo_net demo_x ''small'' = Inr \<lparr>nrows = 2, ncols = 1, rws = [[2], [- 1]]\<rparr>"
proof -
  have ev: "pointwise (\<lambda>a b. a + b) demo_x (residual_block (block_of demo_net ''small'') demo_x) =
      \<lparr>nrows = 2, ncols = 1, rws = [[2], [- 1]]\<rparr>"
    by code_simp
  from forward_adds_residual_block [OF wf_demo_net wf2_demo_x demo_shapes(1), of "''small''"]
  show ?thesis by (auto simp: wf_demo_net wf2_demo_x ev)
qed

text \<open>
  C5. \<open>check_data_info\<close> raises (an \<open>AssertionError\<close>, the code's consistency error) exactly
  when the model and the dataset differ in \<open>n_dim\<close>, in \<open>dt\<close> or in \<open>step_size\<close>; each of
  the three differences raises by itself, and the call returns when all three agree.
\<close>

theorem check_data_info_raises_iff:
  "check_data_info m d =
     (if n_dim m = ds_n_dim d \<and> dt m = ds_dt d \<and> step_size m = ds_step_size d
      then Inr () else Inl AssertionError)"
  by (simp add: check_data_info_def)

text \<open>
  C9. \<open>calculate_loss\<close> checks only the last dimension of \<open>ys\<close> and reads the horizon
  columns 0 to 4: with fewer than five columns it never returns, and on inputs of the
  documented shapes the error is the \<open>IndexError\<close> of the column read.
\<close>

theorem calculate_loss_needs_five_columns:
  assumes "dim1 ys < 5"
  shows "(\<forall>v. calculate_loss m x ys \<noteq> Inr v) \<and>
    (wf_resnet m \<and> ncols x = n_dim m \<and> dim0 ys = nrows x \<and> dim2 ys = n_dim m \<longrightarrow>
       calculate_loss m x ys = Inl IndexError)"
  using assms calculate_loss_Inr [of m x ys] calculate_loss_IndexError [of m x ys]
  by fastforce

theorem calculate_loss_needs_five_columns_witness:
  "dim1 demo_ys4 < 5 \<and> calculate_loss demo_net demo_x demo_ys4 = Inl IndexError"
proof -
  have four: "dim1 demo_ys4 < 5" by (simp add: demo_ys4_def)
  from calculate_loss_needs_five_columns [OF four, of demo_net demo_x]
  show ?thesis by (simp add: wf_demo_net demo_shapes four)
qed

text \<open>
  C6 (as amended). The test for convergence reads \<open>best_loss\<close>, the validation loss last
  recorded at an epoch that is a multiple of 1000, not the validation loss of the
  iteration. In an iteration that computes its two losses, the loop is left as converged
  exactly when \<open>best_loss \<le> 1e-8\<close>; it then halts at once, and the optimizer is not
  stepped, the parameters are not changed and nothing is saved in that iteration.
  Otherwise one optimizer step is applied and the loop goes on.
\<close>

theorem converged_tests_best_loss:
  assumes "int (epoch s) < max_epoch"
  shows "case train_iteration randperm opt_step d batch_size model_path s of
      Inl e \<Rightarrow> train_loop randperm opt_step d max_epoch batch_size model_path s = Inl e
    | Inr (s1, brk) \<Rightarrow>
        brk = (best_loss s \<le> threshold) \<and>
        (if brk
         then train_loop randperm opt_step d max_epoch batch_size model_path s = Inr (s1, Converged) \<and>
           opt_steps s1 = opt_steps s \<and> net s1 = net s \<and> optim s1 = optim s \<and> saved s1 = saved s
         else train_loop randperm opt_step d max_epoch batch_size model_path s =
             train_loop randperm opt_step d max_epoch batch_size model_path s1 \<and>
           opt_steps s1 = opt_steps s + 1)"
proof (cases "train_iteration randperm opt_step d batch_size model_path s")
  case (Inl e)
  then show ?thesis
    using assms by (simp add: train_loop.simps [of _ _ _ _ _ _ s])
next
  case (Inr r)
  obtain s1 brk where r: "r = (s1, brk)" by (cases r)
  have it: "train_iteration randperm opt_step d batch_size model_path s = Inr (s1, brk)"
    using Inr r by simp
  have b: "brk = (best_loss s \<le> threshold)" using it by (rule train_iteration_break)
  have loop: "train_loop randperm opt_step d max_epoch batch_size model_path s =
      (if brk then Inr (s1, Converged)
       else train_loop randperm opt_step d max_epoch batch_size model_path s1)"
    using assms it by (simp add: train_loop.simps [of _ _ _ _ _ _ s])
  show ?thesis
  proof (cases brk)
    case True
    with it train_iteration_converged [of randperm opt_step d batch_size model_path s s1]
    show ?thesis using b loop by (simp add: it)
  next
    case False
    with it train_iteration_stepped [of randperm opt_step d batch_size model_path s s1]
    show ?thesis using b loop by (simp add: it)
  qed
qed


theorem converged_tests_best_loss_witness:
  "int (epoch late_state) < 2000 \<and> best_loss late_state \<le> threshold \<and>
   (\<exists>s1. train_loop first_indices no_update (constant_data 1 1 1) 2000 1 None late_state =
      Inr (s1, Converged) \<and> epoch s1 = 1001 \<and> opt_steps s1 = opt_steps late_state)"
proof -
  have e: "int (epoch late_state) < 2000" by (simp add: late_state_def)
  have b: "best_loss late_state \<le> threshold" by (simp add: late_state_def threshold_def)
  from late_iteration obtain s1 brk where
    it: "train_iteration first_indices no_update (constant_data 1 1 1) 1 None late_state =
      Inr (s1, brk)" and brk: brk and e1: "epoch s1 = 1001"
    by (auto split: sum.splits prod.splits)
  note th = converged_tests_best_loss [OF e, of first_indices no_update "constant_data 1 1 1" 1 None]
  from th [unfolded it] brk
  have "train_loop first_indices no_update (constant_data 1 1 1) 2000 1 None late_state =
      Inr (s1, Converged) \<and> opt_steps s1 = opt_steps late_state"
    by simp
  with e b e1 show ?thesis by blast
qed

text \<open>
  The claim as stated fails: in this run the validation loss is 0 in both iterations, the
  optimizer is stepped in both, and the loop ends by exhausting \<open>max_epoch\<close>.
\<close>

theorem validation_loss_zero_counterexample:
  "\<exists>s. train_net first_indices no_update () (still_net 1) (constant_data 1 1 1) 2 1 None =
       Inr (s, Exhausted) \<and>
     val_loss s = Some (Num 0) \<and> 0 \<le> threshold \<and> epoch s = 2 \<and> opt_steps s = 2"
  using two_epochs by (auto simp: threshold_def split: sum.splits prod.splits)

text \<open>
  C7 (as amended). In the scenario with \<open>max_epoch = 5\<close>, \<open>train_x\<close> of shape \<open>(100, 3)\<close>,
  \<open>step_size = 4\<close>, five horizon columns and \<open>batch_size = 20\<close>, the run starts with
  \<open>epoch = 0\<close> and \<open>best_loss = 1e+5\<close>, applies exactly five optimizer steps and ends by
  exhausting \<open>max_epoch\<close>. Nothing is saved inside the loop and \<open>best_loss\<close> keeps its
  initial value; at the exit of the loop one checkpoint is saved exactly when the last
  validation loss is below that value and a model path is given. So no checkpoint is
  persisted when the validation loss never drops below the initial \<open>best_loss\<close>.
\<close>

theorem five_epochs_scenario:
  assumes "dataset_ok 3 d" "nrows (train_x d) = 100" "dim1 (train_ys d) = 5"
    and "randperm_ok randperm" "optimizer_keeps P 3 opt_step" "P m"
    and "ds_n_dim d = 3" "ds_dt d = dt m" "ds_step_size d = 4" "step_size m = 4"
  shows "\<exists>s. train_net randperm opt_step opt_init m d 5 20 model_path = Inr (s, Exhausted) \<and>
    epoch s = 5 \<and> opt_steps s = 5 \<and> best_loss s = initial_best_loss \<and>
    saved s = (if (\<exists>v. val_loss s = Some (Num v) \<and> v < initial_best_loss) \<and> model_path \<noteq> None
               then [(5, net s)] else [])"
proof -
  from assms(5,6) have nd: "n_dim m = 3" by (simp add: optimizer_keeps_def)
  have same: "n_dim m = ds_n_dim d" "dt m = ds_dt d" "step_size m = ds_step_size d"
    using nd assms(7-10) by simp_all
  from train_net_exhausts [OF assms(1,4,5,6) same, of 5 opt_init 20 model_path]
  obtain s where r: "train_net randperm opt_step opt_init m d 5 20 model_path = Inr (s, Exhausted)"
    and e: "int (epoch s) = 5" and o: "opt_steps s = epoch s"
    and b: "best_loss s = initial_best_loss"
    and sv: "saved s = (if (\<exists>v. val_loss s = Some (Num v) \<and> v < initial_best_loss) \<and>
        model_path \<noteq> None then [(epoch s, net s)] else [])"
    by auto
  from e have e5: "epoch s = 5" by simp
  show ?thesis
    apply (rule exI [of _ s])
    using r e5 o b sv unfolding e5 by (intro conjI)
qed

theorem five_epochs_scenario_witness:
  "\<exists>s. train_net first_indices no_update () (still_net 3) (constant_data 100 1 3) 5 20 None =
       Inr (s, Exhausted) \<and>
     opt_steps s = 5 \<and> saved s = []"
proof -
  have P: "still_net 3 = still_net 3" by simp
  from five_epochs_scenario [where opt_init = "()" and model_path = None
      and P = "\<lambda>m. m = still_net 3",
      OF constant_data_ok scenario_facts(1,2) first_indices_ok no_update_keeps P
        scenario_facts(3-6)]
  show ?thesis by auto
qed

text \<open>
  The claim as stated fails: the initial \<open>best_loss\<close> is \<open>1e+5\<close>, and with
  \<open>max_epoch = 5 < 1000\<close> a checkpoint is still saved, at the exit of the loop.
\<close>

theorem checkpoint_at_exit_counterexample:
  "\<exists>s. train_net first_indices no_update () (still_net 3) (constant_data 100 1 3) 5 20
       (Some ''model.pt'') = Inr (s, Exhausted) \<and>
     opt_steps s = 5 \<and> saved s = [(5, still_net 3)] \<and> initial_best_loss = 100000"
proof -
  let ?d = "constant_data 100 1 3"
  have P: "still_net 3 = still_net 3" by simp
  have me: "(0 :: int) < 5" "(5 :: int) < 1000" by simp_all
  note th = train_net_exhausts [where opt_init = "()" and model_path = "Some ''model.pt''"
      and batch_size = 20 and P = "\<lambda>m. m = still_net 3" and d = ?d and nd = 3,
      OF constant_data_ok first_indices_ok no_update_keeps P still_net_consistent me]
  from th obtain s where "\<exists>m0. train_net first_indices no_update () (still_net 3) ?d
        5 20 (Some ''model.pt'') = Inr (s, Exhausted) \<and>
      int (epoch s) = 5 \<and> opt_steps s = epoch s \<and> net s = still_net 3 \<and> m0 = still_net 3 \<and>
      val_loss s = Some (branch_loss m0 (val_x ?d) (val_ys ?d)) \<and>
      best_loss s = initial_best_loss \<and>
      saved s = (if (\<exists>v. val_loss s = Some (Num v) \<and> v < initial_best_loss) \<and>
          Some ''model.pt'' \<noteq> (None :: string option) then [(epoch s, net s)] else [])"
    by (rule exE)
  then have r: "train_net first_indices no_update () (still_net 3) ?d
        5 20 (Some ''model.pt'') = Inr (s, Exhausted)"
    and e: "int (epoch s) = 5" and o: "opt_steps s = epoch s" and n: "net s = still_net 3"
    and v: "val_loss s = Some (branch_loss (still_net 3) (val_x ?d) (val_ys ?d))"
    and sv: "saved s = (if (\<exists>v. val_loss s = Some (Num v) \<and> v < initial_best_loss) \<and>
        Some ''model.pt'' \<noteq> (None :: string option) then [(epoch s, net s)] else [])"
    by auto
  from e have e5: "epoch s = 5" by simp
  have v0: "val_loss s = Some (Num 0)" using v by (simp only: val_loss_still_3)
  have "saved s = [(5, still_net 3)]"
    using sv by (simp add: v0 e5 n initial_best_loss_def)
  with r o e5 show ?thesis by (auto simp: initial_best_loss_def)
qed


text \<open>
  C10. The test for convergence reads \<open>best_loss\<close>, which is lowered only at epochs that
  are multiples of 1000. With \<open>max_epoch \<le> 1000\<close> neither the loop nor \<open>train_net\<close> ever
  ends as converged, whatever the validation loss is; and on data of the expected shapes
  the loop ends by exhausting \<open>max_epoch\<close>, having stepped the optimizer once per epoch.
\<close>

theorem converged_unreachable_within_1000:
  assumes "max_epoch \<le> 1000"
  shows "(\<forall>s. train_loop randperm opt_step d max_epoch batch_size model_path (initial_state m opt_init)
        \<noteq> Inr (s, Converged)) \<and>
    (\<forall>s. train_net randperm opt_step opt_init m d max_epoch batch_size model_path
        \<noteq> Inr (s, Converged)) \<and>
    (dataset_ok nd d \<and> randperm_ok randperm \<and> optimizer_keeps P nd opt_step \<and> P m \<longrightarrow>
       (\<exists>s. train_loop randperm opt_step d max_epoch batch_size model_path (initial_state m opt_init)
          = Inr (s, Exhausted) \<and>
        int (epoch s) = max 0 max_epoch \<and> opt_steps s = epoch s))"
proof -
  let ?s0 = "initial_state m opt_init :: 'a train_state"
  have inv: "int (epoch ?s0) < max_epoch \<longrightarrow> \<not> best_loss ?s0 \<le> threshold"
    by (simp add: threshold_below_initial)
  have a: "train_loop randperm opt_step d max_epoch batch_size model_path ?s0 \<noteq> Inr (s, Converged)"
    for s
    using assms inv by (rule train_loop_not_converged)
  have b: "train_net randperm opt_step opt_init m d max_epoch batch_size model_path \<noteq> Inr (s, Converged)"
    for s
    using a train_net_reason [of randperm opt_step opt_init m d max_epoch batch_size model_path s Converged]
    by blast
  have c: "\<exists>s. train_loop randperm opt_step d max_epoch batch_size model_path ?s0
          = Inr (s, Exhausted) \<and>
        int (epoch s) = max 0 max_epoch \<and> opt_steps s = epoch s"
    if env: "dataset_ok nd d" "randperm_ok randperm" "optimizer_keeps P nd opt_step" and P: "P m"
  proof -
    have P0: "P (net ?s0)" using P by simp
    from train_loop_exhausts [OF env assms P0 inv, of batch_size model_path]
    obtain s where "train_loop randperm opt_step d max_epoch batch_size model_path ?s0 =
        Inr (s, Exhausted)" and "int (epoch s) = max (int (epoch ?s0)) max_epoch"
      and "opt_steps s = opt_steps ?s0 + (epoch s - epoch ?s0)"
      by blast
    then show ?thesis by auto
  qed
  from a b c show ?thesis by blast
qed

theorem converged_unreachable_within_1000_witness:
  "(3 :: int) \<le> 1000 \<and>
   (\<exists>s. train_loop first_indices no_update (constant_data 1 1 1) 3 1 None
       (initial_state (still_net 1) ()) = Inr (s, Exhausted) \<and> epoch s = 3 \<and> opt_steps s = 3)"
proof -
  have le: "(3 :: int) \<le> 1000" by simp
  from converged_unreachable_within_1000 [OF le, where randperm = first_indices
      and opt_step = no_update and d = "constant_data 1 1 1" and batch_size = 1
      and model_path = None and m = "still_net 1" and opt_init = "()" and nd = 1
      and P = "\<lambda>m. m = still_net 1"]
  show ?thesis
    using constant_data_ok [of 1 1 1] first_indices_ok no_update_keeps [of 1] by auto
qed

text \<open>
  C3. The claim is that \<open>uni_scale_forecast(x_init, n_steps)\<close> returns a tensor of shape
  \<open>(n_test, n_steps, n_dim)\<close> whose entry at step 0 is \<open>x_init\<close>. The code does not: for
  every \<open>n_steps \<ge> 0\<close> the loop is entered, and its first statement calls \<open>forward\<close>
  without the \<open>step_size\<close> argument, so the call raises \<open>TypeError\<close>.
\<close>

theorem uni_scale_forecast_raises:
  "uni_scale_forecast interp1d m x_init (int n) = Inl TypeError"
  by (simp add: uni_scale_forecast_def uni_scale_loop.simps [of m "int n" "step_size m - 1"]
      call_forward_def)

text \<open>
  C4. The claim is that with a single model and step size 1 the assembler returns what
  \<open>n_steps\<close> small steps from \<open>x_init\<close> give. The code does not: it returns on no input at
  all, since its interpolation asks for the kind \<^verbatim>\<open>'lin/ear'\<close>, and with one step size
  it fails earlier, when the second pass of \<^verbatim>\<open>for i in [0,1]\<close> reads \<^verbatim>\<open>step_sizes[1]\<close>
  (after a first pass that stepped with the large block, not the small one).
\<close>

theorem multi_scale_forecast_raises:
  "(\<forall>v. vectorized_multi_scale_forecast interp m x_init n_steps models step_sizes \<noteq> Inr v) \<and>
   vectorized_multi_scale_forecast interp (still_net 1) \<lparr>nrows = 1, ncols = 1, rws = [[1]]\<rparr> 3
     [still_net 1] [1] = Inl IndexError"
proof -
  have "vectorized_multi_scale_forecast interp (still_net 1) \<lparr>nrows = 1, ncols = 1, rws = [[1]]\<rparr> 3
     [still_net 1] [1] = Inl IndexError"
    by code_simp
  then show ?thesis
    by (simp add: forecast_never_returns)
qed

end
